theory Spec2Isabelle
  imports Complex_Main
begin

section \<open>Input shaping in RepRapFirmware: the axis shaper\<close>

text \<open>
  A shallow embedding of \<^verbatim>\<open>AxisShaper::Configure\<close> (M593) and of the planning part of
  \<^verbatim>\<open>AxisShaper::PlanShaping\<close> from InputShaper.cpp.

  Numbers. The source computes in single-precision \<^verbatim>\<open>float\<close>. The embedding idealises
  a finite float as a \<^typ>\<open>real\<close>: rounding is not modelled, so every equation below is
  one of exact arithmetic. Where the source divides by a value that is zero in states
  the firmware reaches (the scaling of the overlapped table, the deceleration distance
  proposed for a move that ends at its top speed), the IEEE result is an infinity or a
  NaN and the embedding keeps it as such, in the type \<open>fl\<close>.
  \<^verbatim>\<open>fastSqrtf\<close> is \<^const>\<open>sqrt\<close>, \<^verbatim>\<open>expf\<close> is \<^const>\<open>exp\<close>, \<^verbatim>\<open>Pi\<close> is \<^const>\<open>pi\<close>.
\<close>

subsection \<open>Floats that may be infinite\<close>

datatype fl = Finite real | PlusInf | MinusInf | NaN

text \<open>\<^verbatim>\<open>1.0/x\<close> for a finite \<open>x\<close>; a zero divisor is the positive zero here.\<close>

definition fl_recip :: "real \<Rightarrow> fl" where
  "fl_recip x = (if x = 0 then PlusInf else Finite (1 / x))"

text \<open>\<^verbatim>\<open>v * s\<close> for a finite \<open>v\<close>.\<close>

fun fl_scale :: "real \<Rightarrow> fl \<Rightarrow> fl" where
  "fl_scale v (Finite s) = Finite (v * s)"
| "fl_scale v PlusInf = (if 0 < v then PlusInf else if v < 0 then MinusInf else NaN)"
| "fl_scale v MinusInf = (if 0 < v then MinusInf else if v < 0 then PlusInf else NaN)"
| "fl_scale v NaN = NaN"

text \<open>\<^verbatim>\<open>x / d\<close> for a finite, non-negative \<open>d\<close> (an impulse count).\<close>

fun fl_div :: "fl \<Rightarrow> real \<Rightarrow> fl" where
  "fl_div (Finite a) d =
     (if d = 0 then (if 0 < a then PlusInf else if a < 0 then MinusInf else NaN)
      else Finite (a / d))"
| "fl_div PlusInf d = (if d < 0 then MinusInf else PlusInf)"
| "fl_div MinusInf d = (if d < 0 then PlusInf else MinusInf)"
| "fl_div NaN d = NaN"

text \<open>\<^verbatim>\<open>x + d\<close> for a finite \<open>d\<close>.\<close>

fun fl_plus :: "fl \<Rightarrow> real \<Rightarrow> fl" where
  "fl_plus (Finite a) d = Finite (a + d)"
| "fl_plus PlusInf d = PlusInf"
| "fl_plus MinusInf d = MinusInf"
| "fl_plus NaN d = NaN"

text \<open>
  \<^verbatim>\<open>a / b\<close> for finite \<open>a\<close> and \<open>b\<close>: with a zero divisor the result is an infinity with
  the sign of \<open>a\<close>, or a NaN when \<open>a\<close> is zero too.
\<close>

definition fl_quot :: "real \<Rightarrow> real \<Rightarrow> fl" where
  "fl_quot a b =
     (if b = 0 then (if a = 0 then NaN else if 0 < a then PlusInf else MinusInf)
      else Finite (a / b))"

text \<open>\<^verbatim>\<open>x <= r\<close> for a finite \<open>r\<close>: a comparison with a NaN is false.\<close>

fun fl_le :: "fl \<Rightarrow> real \<Rightarrow> bool" where
  "fl_le (Finite a) r = (a \<le> r)"
| "fl_le PlusInf r = False"
| "fl_le MinusInf r = True"
| "fl_le NaN r = False"

text \<open>The number a float holds, read only where the float is known to be finite.\<close>

fun fl_value :: "fl \<Rightarrow> real" where
  "fl_value (Finite a) = a"
| "fl_value PlusInf = 0"
| "fl_value MinusInf = 0"
| "fl_value NaN = 0"

subsection \<open>The shaper's state and the M593 command\<close>

text \<open>
  Modelled from the spec: the header AxisShaper.h is not among the sources. The type
  names are those of the spec's table of the \<open>P\<close> parameter; \<open>numExtraImpulses\<close>
  ranges over 0..4, so the two impulse arrays hold \<open>MaxExtraImpulses = 4\<close> entries and
  the overlapped table twice as many; the step clock runs at 750000 Hz.
\<close>

datatype InputShaperType = none | custom | daa | ei2 | ei3 | zvd | zvdd

definition MaxExtraImpulses :: nat where
  "MaxExtraImpulses = 4"

definition StepClockRate :: real where
  "StepClockRate = 750000"

text \<open>The build has \<^verbatim>\<open>SUPPORT_DAA\<close> defined.\<close>

definition SUPPORT_DAA :: bool where
  "SUPPORT_DAA = True"

fun InputShaperType_of_name :: "string \<Rightarrow> InputShaperType option" where
  "InputShaperType_of_name n =
     (if n = ''none'' then Some none
      else if n = ''custom'' then Some custom
      else if n = ''daa'' then Some daa
      else if n = ''ei2'' then Some ei2
      else if n = ''ei3'' then Some ei3
      else if n = ''zvd'' then Some zvd
      else if n = ''zvdd'' then Some zvdd
      else None)"

fun InputShaperType_ToString :: "InputShaperType \<Rightarrow> string" where
  "InputShaperType_ToString none = ''none''"
| "InputShaperType_ToString custom = ''custom''"
| "InputShaperType_ToString daa = ''daa''"
| "InputShaperType_ToString ei2 = ''ei2''"
| "InputShaperType_ToString ei3 = ''ei3''"
| "InputShaperType_ToString zvd = ''zvd''"
| "InputShaperType_ToString zvdd = ''zvdd''"

text \<open>
  Modelled from the spec: the members of \<^verbatim>\<open>AxisShaper\<close> are declared in the header.
  They are the fields of the spec's data model, under the names \<^verbatim>\<open>Configure\<close> uses;
  the durations and the three clock counts are floats, the arrays lists of the lengths
  above.
\<close>

record AxisShaper =
  numExtraImpulses :: nat
  frequency :: real
  zeta :: real
  minimumAcceleration :: real
  shaperType :: InputShaperType
  coefficients :: "real list"
  durations :: "real list"
  totalDuration :: real
  totalShapingClocks :: real
  clocksLostAtStart :: real
  clocksLostAtEnd :: real
  overlappedCoefficients :: "fl list"
  overlappedAverageAcceleration :: fl

text \<open>
  The G-code parser is outside the sources; a command is what the parser hands to
  \<^verbatim>\<open>Configure\<close>: for each letter, whether it was seen and the value read. \<open>paramP\<close> is
  the reduced string of \<^verbatim>\<open>GetReducedString\<close>. \<open>paramH\<close> and \<open>paramT\<close> are the values
  \<^verbatim>\<open>GetFloatArray\<close> stores from index 0 of its array; their number is the count it
  returns in its length argument.
\<close>

record GCodeBuffer =
  paramF :: "real option"
  paramL :: "real option"
  paramS :: "real option"
  paramP :: "string option"
  paramH :: "real list option"
  paramT :: "real list option"

datatype GCodeResult = GCodeResult_ok | GCodeResult_error

text \<open>
  What \<^verbatim>\<open>Configure\<close> leaves in \<^verbatim>\<open>reply\<close>: nothing, a fixed text, or the report of a
  pure query (type name, frequency, damping, minimum acceleration, and the impulses and
  durations printed; the formatting of the numbers is not modelled).
\<close>

datatype reply = ReplyUnchanged | ReplyText string
  | ReplyReport string real real real "real list" "real list"

text \<open>
  \<^verbatim>\<open>Configure\<close> returns a result with the new state, or leaves by a
  \<^verbatim>\<open>GCodeException\<close> with the state as changed so far.
\<close>

datatype outcome = Returned GCodeResult reply AxisShaper | Thrown AxisShaper

text \<open>
  Modelled from the spec: \<^verbatim>\<open>GetLimitedFValue\<close> is the parser's; the spec has
  out-of-range values of \<open>F\<close> and \<open>S\<close> rejected. \<open>None\<close> is the exception.
\<close>

definition GetLimitedFValue :: "real \<Rightarrow> real \<Rightarrow> real \<Rightarrow> real option" where
  "GetLimitedFValue v minValue maxValue =
     (if v < minValue \<or> maxValue < v then None else Some v)"

definition MinimumInputShapingFrequency :: real where
  "MinimumInputShapingFrequency = StepClockRate / (2 * 65535)"

definition MaximumInputShapingFrequency :: real where
  "MaximumInputShapingFrequency = 1000"

definition fsquare :: "real \<Rightarrow> real" where
  "fsquare x = x * x"

text \<open>Writing \<open>vals\<close> into an array from index 0.\<close>

definition store_array :: "'a list \<Rightarrow> 'a list \<Rightarrow> 'a list" where
  "store_array arr vals = vals @ drop (length vals) arr"

subsection \<open>Configure: reading the parameters (lines 52 to 90)\<close>

text \<open>Lines 53 to 57: \<open>F\<close>. \<open>None\<close>: the range check threw.\<close>

definition ConfigureF :: "AxisShaper \<Rightarrow> GCodeBuffer \<Rightarrow> AxisShaper option" where
  "ConfigureF s gb =
     (case paramF gb of
        None \<Rightarrow> Some s
      | Some v \<Rightarrow>
          (case GetLimitedFValue v MinimumInputShapingFrequency MaximumInputShapingFrequency of
             None \<Rightarrow> None
           | Some f \<Rightarrow> Some (s\<lparr>frequency := f\<rparr>)))"

text \<open>Lines 58 to 62: \<open>L\<close>, clamped from below at 1.\<close>

definition ConfigureL :: "AxisShaper \<Rightarrow> GCodeBuffer \<Rightarrow> AxisShaper" where
  "ConfigureL s gb =
     (case paramL gb of
        None \<Rightarrow> s
      | Some v \<Rightarrow> s\<lparr>minimumAcceleration := max v 1\<rparr>)"

text \<open>Lines 63 to 67: \<open>S\<close>.\<close>

definition ConfigureS :: "AxisShaper \<Rightarrow> GCodeBuffer \<Rightarrow> AxisShaper option" where
  "ConfigureS s gb =
     (case paramS gb of
        None \<Rightarrow> Some s
      | Some v \<Rightarrow>
          (case GetLimitedFValue v 0 (99 / 100) of
             None \<Rightarrow> None
           | Some z \<Rightarrow> Some (s\<lparr>zeta := z\<rparr>)))"

text \<open>The value of \<^verbatim>\<open>seen\<close> after the three letters.\<close>

definition seenFLS :: "GCodeBuffer \<Rightarrow> bool" where
  "seenFLS gb = (paramF gb \<noteq> None \<or> paramL gb \<noteq> None \<or> paramS gb \<noteq> None)"

text \<open>
  Lines 69 to 90: \<open>P\<close>. \<open>Inl\<close> is the early error return with its reply; \<open>Inr\<close> carries
  the state and \<^verbatim>\<open>seen\<close>.
\<close>

definition ConfigureP :: "AxisShaper \<Rightarrow> GCodeBuffer \<Rightarrow> bool \<Rightarrow> string + AxisShaper \<times> bool" where
  "ConfigureP s gb seen =
     (case paramP gb of
        Some shaperName \<Rightarrow>
          (case InputShaperType_of_name shaperName of
             None \<Rightarrow> Inl (''Unsupported input shaper type '' @ [CHR 0x27] @ shaperName @ [CHR 0x27])
           | Some newType \<Rightarrow> Inr (s\<lparr>shaperType := newType\<rparr>, True))
      | None \<Rightarrow>
          (if seen \<and> shaperType s = none
           then Inr (s\<lparr>shaperType := (if SUPPORT_DAA then daa else zvd)\<rparr>, seen)
           else Inr (s, seen)))"

subsection \<open>Configure: the impulses of each shaper type (lines 94 to 194)\<close>

text \<open>
  The \<^verbatim>\<open>switch\<close> on the type. \<open>Inl\<close> leaves \<^verbatim>\<open>Configure\<close> at once: by the exception of
  \<^verbatim>\<open>MustSee('H')\<close> or by the error return of line 121. In a build without
  \<^verbatim>\<open>SUPPORT_DAA\<close> the type \<open>daa\<close> has no case and nothing is assigned. The arrays hold
  \<open>MaxExtraImpulses\<close> entries, so every index written is in range.
\<close>

definition SetImpulses :: "AxisShaper \<Rightarrow> GCodeBuffer \<Rightarrow> outcome + AxisShaper" where
  "SetImpulses s gb =
     (let sqrtOneMinusZetaSquared = sqrt (1 - fsquare (zeta s));
          dampedFrequency = frequency s * sqrtOneMinusZetaSquared;
          k = exp (- zeta s * pi / sqrtOneMinusZetaSquared)
      in case shaperType s of
           none \<Rightarrow> Inr (s\<lparr>numExtraImpulses := 0\<rparr>)
         | custom \<Rightarrow>
             (case paramH gb of
                None \<Rightarrow> Inl (Thrown s)
              | Some hs \<Rightarrow>
                  (let s1 = s\<lparr>coefficients := store_array (coefficients s) hs\<rparr>;
                       numAmplitudes = length hs
                   in case paramT gb of
                        Some ts \<Rightarrow>
                          (let s2 = s1\<lparr>durations := store_array (durations s1) ts\<rparr>;
                               numDurations = length ts
                           in if numDurations \<noteq> numAmplitudes
                              then Inl (Returned GCodeResult_error
                                         (ReplyText ''Too few durations given'')
                                         (s2\<lparr>shaperType := none\<rparr>))
                              else Inr (s2\<lparr>numExtraImpulses := numAmplitudes\<rparr>))
                      | None \<Rightarrow>
                          Inr (s1\<lparr>durations :=
                                     store_array (durations s1)
                                       (replicate numAmplitudes (0.5 / frequency s1)),
                                   numExtraImpulses := numAmplitudes\<rparr>)))
         | daa \<Rightarrow>
             (if SUPPORT_DAA
              then Inr (s\<lparr>durations := (durations s)[0 := 1 / dampedFrequency],
                          numExtraImpulses := 0\<rparr>)
              else Inr s)
         | zvd \<Rightarrow>
             (let j = 1 + 2 * k + fsquare k;
                  c0 = 1 / j;
                  c1 = c0 + 2 * k / j
              in Inr (s\<lparr>coefficients := (coefficients s)[0 := c0, 1 := c1],
                        durations := (durations s)[1 := 0.5 / dampedFrequency,
                                                   0 := 0.5 / dampedFrequency],
                        numExtraImpulses := 2\<rparr>))
         | zvdd \<Rightarrow>
             (let j = 1 + 3 * (k + fsquare k) + k * fsquare k;
                  c0 = 1 / j;
                  c1 = c0 + 3 * k / j;
                  c2 = c1 + 3 * fsquare k / j
              in Inr (s\<lparr>coefficients := (coefficients s)[0 := c0, 1 := c1, 2 := c2],
                        durations := (durations s)[2 := 0.5 / dampedFrequency,
                                                   1 := 0.5 / dampedFrequency,
                                                   0 := 0.5 / dampedFrequency],
                        numExtraImpulses := 3\<rparr>))
         | ei2 \<Rightarrow>
             (let zetaSquared = fsquare (zeta s);
                  zetaCubed = zetaSquared * zeta s;
                  c0 = 0.16054 + 0.76699 * zeta s + 2.26560 * zetaSquared
                       + (- 1.22750) * zetaCubed;
                  c1 = (0.16054 + 0.33911) + (0.76699 + 0.45081) * zeta s
                       + (2.26560 - 2.58080) * zetaSquared
                       + (- 1.22750 + 1.73650) * zetaCubed;
                  c2 = (0.16054 + 0.33911 + 0.34089)
                       + (0.76699 + 0.45081 - 0.61533) * zeta s
                       + (2.26560 - 2.58080 - 0.68765) * zetaSquared
                       + (- 1.22750 + 1.73650 + 0.42261) * zetaCubed;
                  d0 = (0.49890 + 0.16270 * zeta s + (- 0.54262) * zetaSquared
                        + 6.16180 * zetaCubed) / dampedFrequency;
                  d1 = ((0.99748 - 0.49890) + (0.18382 - 0.16270) * zeta s
                        + (- 1.58270 + 0.54262) * zetaSquared
                        + (8.17120 - 6.16180) * zetaCubed) / dampedFrequency;
                  d2 = ((1.49920 - 0.99748) + (- 0.09297 - 0.18382) * zeta s
                        + (- 0.28338 + 1.58270) * zetaSquared
                        + (1.85710 - 8.17120) * zetaCubed) / dampedFrequency
              in Inr (s\<lparr>coefficients := (coefficients s)[0 := c0, 1 := c1, 2 := c2],
                        durations := (durations s)[0 := d0, 1 := d1, 2 := d2],
                        numExtraImpulses := 3\<rparr>))
         | ei3 \<Rightarrow>
             (let zetaSquared = fsquare (zeta s);
                  zetaCubed = zetaSquared * zeta s;
                  c0 = 0.11275 + 0.76632 * zeta s + 3.29160 * zetaSquared
                       + (- 1.44380) * zetaCubed;
                  c1 = (0.11275 + 0.23698) + (0.76632 + 0.61164) * zeta s
                       + (3.29160 - 2.57850) * zetaSquared
                       + (- 1.44380 + 4.85220) * zetaCubed;
                  c2 = (0.11275 + 0.23698 + 0.30008)
                       + (0.76632 + 0.61164 - 0.19062) * zeta s
                       + (3.29160 - 2.57850 - 2.14560) * zetaSquared
                       + (- 1.44380 + 4.85220 + 0.13744) * zetaCubed;
                  c3 = (0.11275 + 0.23698 + 0.30008 + 0.23775)
                       + (0.76632 + 0.61164 - 0.19062 - 0.73297) * zeta s
                       + (3.29160 - 2.57850 - 2.14560 + 0.46885) * zetaSquared
                       + (- 1.44380 + 4.85220 + 0.13744 - 2.08650) * zetaCubed;
                  d0 = (0.49974 + 0.23834 * zeta s + 0.44559 * zetaSquared
                        + 12.4720 * zetaCubed) / dampedFrequency;
                  d1 = ((0.99849 - 0.49974) + (0.29808 - 0.23834) * zeta s
                        + (- 2.36460 - 0.44559) * zetaSquared
                        + (23.3990 - 12.4720) * zetaCubed) / dampedFrequency;
                  d2 = ((1.49870 - 0.99849) + (0.10306 - 0.29808) * zeta s
                        + (- 2.01390 + 2.36460) * zetaSquared
                        + (17.0320 - 23.3990) * zetaCubed) / dampedFrequency;
                  d3 = ((1.99960 - 1.49870) + (- 0.28231 - 0.10306) * zeta s
                        + (0.61536 + 2.01390) * zetaSquared
                        + (5.40450 - 17.0320) * zetaCubed) / dampedFrequency
              in Inr (s\<lparr>coefficients := (coefficients s)[0 := c0, 1 := c1, 2 := c2, 3 := c3],
                        durations := (durations s)[0 := d0, 1 := d1, 2 := d2, 3 := d3],
                        numExtraImpulses := 4\<rparr>)))"

subsection \<open>Configure: the derived constants (lines 196 to 236)\<close>

text \<open>
  Lines 197 to 205. One turn of the loop on \<^verbatim>\<open>(totalDuration, tLostAtStart, tLostAtEnd)\<close>.
\<close>

definition totals_step :: "AxisShaper \<Rightarrow> nat \<Rightarrow> real \<times> real \<times> real \<Rightarrow> real \<times> real \<times> real" where
  "totals_step s i acc =
     (case acc of (td, tLostAtStart, tLostAtEnd) \<Rightarrow>
        (td + durations s ! i,
         tLostAtStart + (1 - coefficients s ! i) * durations s ! i,
         tLostAtEnd + coefficients s ! i * durations s ! i))"

text \<open>
  Lines 196 to 208. The loop runs while \<^verbatim>\<open>i < numExtraImpulses - 1\<close>, with an 8-bit
  counter. The declaration of \<^verbatim>\<open>numExtraImpulses\<close> is in the header; it is taken to be a
  small unsigned integer, as the counter is, so that both sides are promoted to
  \<^verbatim>\<open>int\<close>: with no impulse the bound is -1 and the body never runs, as with the
  truncating subtraction of \<^typ>\<open>nat\<close> here.
\<close>

definition ComputeTotals :: "AxisShaper \<Rightarrow> AxisShaper" where
  "ComputeTotals s =
     (case fold (totals_step s) [0..<numExtraImpulses s - 1] (0, 0, 0) of
        (td, tLostAtStart, tLostAtEnd) \<Rightarrow>
          s\<lparr>totalDuration := td,
            clocksLostAtStart := tLostAtStart * StepClockRate,
            clocksLostAtEnd := tLostAtEnd * StepClockRate,
            totalShapingClocks := td * StepClockRate\<rparr>)"

text \<open>Lines 215 to 219: the value \<^verbatim>\<open>val\<close> of turn \<open>i\<close>.\<close>

definition overlapped_val :: "AxisShaper \<Rightarrow> nat \<Rightarrow> real" where
  "overlapped_val s i =
     (let val = (if i < numExtraImpulses s then coefficients s ! i else 1)
      in if numExtraImpulses s \<le> i then val - coefficients s ! (i - numExtraImpulses s)
         else val)"

text \<open>
  Lines 213 to 226: one turn of the first loop on \<^verbatim>\<open>maxVal\<close>, \<^verbatim>\<open>totalAcceleration\<close> and
  the values stored so far. \<^verbatim>\<open>maxVal\<close> is replaced when it is greater than \<^verbatim>\<open>val\<close>.
\<close>

definition overlapped_step :: "AxisShaper \<Rightarrow> nat \<Rightarrow> real \<times> real \<times> real list \<Rightarrow> real \<times> real \<times> real list" where
  "overlapped_step s i acc =
     (case acc of (maxVal, totalAcceleration, vals) \<Rightarrow>
        (let val = overlapped_val s i
         in ((if maxVal > val then val else maxVal), totalAcceleration + val, vals @ [val])))"

text \<open>
  Lines 210 to 236. The second loop multiplies each of the \<open>2n\<close> values just stored by
  \<^verbatim>\<open>scaling = 1.0/maxVal\<close>; the entries of the table beyond them keep their content.
\<close>

definition ComputeOverlapped :: "AxisShaper \<Rightarrow> AxisShaper" where
  "ComputeOverlapped s =
     (case fold (overlapped_step s) [0..<2 * numExtraImpulses s] (0, 0, []) of
        (maxVal, totalAcceleration, vals) \<Rightarrow>
          (let scaling = fl_recip maxVal
           in s\<lparr>overlappedCoefficients :=
                   store_array (overlappedCoefficients s) (map (\<lambda>v. fl_scale v scaling) vals),
                 overlappedAverageAcceleration :=
                   fl_plus (fl_div (fl_scale totalAcceleration scaling)
                                   (real (numExtraImpulses s)))
                           (real (numExtraImpulses s))\<rparr>))"

subsection \<open>Configure\<close>

text \<open>Lines 246 to 259: the report of a query.\<close>

definition Report :: "AxisShaper \<Rightarrow> reply" where
  "Report s =
     ReplyReport (InputShaperType_ToString (shaperType s)) (frequency s) (zeta s)
       (minimumAcceleration s)
       (take (numExtraImpulses s) (coefficients s))
       (map (\<lambda>d. d * 1000) (take (numExtraImpulses s) (durations s)))"

text \<open>
  \<^verbatim>\<open>AxisShaper::Configure\<close>, lines 48 to 262. The call of \<^verbatim>\<open>reprap.MoveUpdated()\<close> changes
  nothing of the shaper and is left out.
\<close>

definition Configure :: "AxisShaper \<Rightarrow> GCodeBuffer \<Rightarrow> outcome" where
  "Configure s gb =
     (case ConfigureF s gb of
        None \<Rightarrow> Thrown s
      | Some s1 \<Rightarrow>
          (let s2 = ConfigureL s1 gb
           in case ConfigureS s2 gb of
                None \<Rightarrow> Thrown s2
              | Some s3 \<Rightarrow>
                  (case ConfigureP s3 gb (seenFLS gb) of
                     Inl msg \<Rightarrow> Returned GCodeResult_error (ReplyText msg) s3
                   | Inr (s4, seen) \<Rightarrow>
                       (if seen
                        then (case SetImpulses s4 gb of
                                Inl out \<Rightarrow> out
                              | Inr s5 \<Rightarrow>
                                  Returned GCodeResult_ok ReplyUnchanged
                                    (ComputeOverlapped (ComputeTotals s5)))
                        else if shaperType s4 = none
                        then Returned GCodeResult_ok (ReplyText ''Input shaping is disabled'') s4
                        else Returned GCodeResult_ok (Report s4) s4))))"

text \<open>
  \<^verbatim>\<open>AxisShaper::AxisShaper()\<close>, lines 38 to 45; the three defaults are constants of the
  header and are taken as arguments. The arrays start zeroed.
\<close>

definition AxisShaper_new :: "real \<Rightarrow> real \<Rightarrow> real \<Rightarrow> AxisShaper" where
  "AxisShaper_new DefaultFrequency DefaultDamping DefaultMinimumAcceleration =
     \<lparr>numExtraImpulses = 0, frequency = DefaultFrequency, zeta = DefaultDamping,
      minimumAcceleration = DefaultMinimumAcceleration, shaperType = none,
      coefficients = replicate MaxExtraImpulses 0, durations = replicate MaxExtraImpulses 0,
      totalDuration = 0, totalShapingClocks = 0, clocksLostAtStart = 0, clocksLostAtEnd = 0,
      overlappedCoefficients = replicate (2 * MaxExtraImpulses) (Finite 0),
      overlappedAverageAcceleration = Finite 0\<rparr>"

text \<open>The state \<^verbatim>\<open>Configure\<close> leaves, however it ends.\<close>

definition state_of :: "outcome \<Rightarrow> AxisShaper" where
  "state_of out = (case out of Returned _ _ s \<Rightarrow> s | Thrown s \<Rightarrow> s)"

text \<open>A command with no \<open>H\<close> and no \<open>T\<close>.\<close>

definition M593 :: "real option \<Rightarrow> real option \<Rightarrow> real option \<Rightarrow> string option \<Rightarrow> GCodeBuffer" where
  "M593 f l s p = \<lparr>paramF = f, paramL = l, paramS = s, paramP = p, paramH = None, paramT = None\<rparr>"

text \<open>The values of \<open>F\<close> and \<open>S\<close>, where given, pass the range checks of lines 56 and 66.\<close>

definition paramsInRange :: "GCodeBuffer \<Rightarrow> bool" where
  "paramsInRange gb =
     ((case paramF gb of None \<Rightarrow> True
       | Some v \<Rightarrow> MinimumInputShapingFrequency \<le> v \<and> v \<le> MaximumInputShapingFrequency)
    \<and> (case paramS gb of None \<Rightarrow> True | Some v \<Rightarrow> 0 \<le> v \<and> v \<le> 99 / 100))"

section \<open>Planning a move\<close>

subsection \<open>The move and its parameters\<close>

text \<open>
  Modelled from the spec: DDA.h is not among the sources. A move has the kinematic
  fields the spec lists; of its neighbours \<^verbatim>\<open>PlanShaping\<close> reads the state, the flag
  \<^verbatim>\<open>wasAccelOnlyMove\<close> of the previous move and \<^verbatim>\<open>IsDecelerationMove()\<close> of the next.
\<close>

datatype DDAState = DDA_empty | DDA_provisional | DDA_frozen | DDA_executing | DDA_completed

record DDA =
  startSpeed :: real
  topSpeed :: real
  endSpeed :: real
  acceleration :: real
  deceleration :: real
  totalDistance :: real
  beforePrepare_accelDistance :: real
  beforePrepare_decelDistance :: real
  prevState :: DDAState
  prevWasAccelOnlyMove :: bool
  nextState :: DDAState
  nextIsDecelerationMove :: bool

text \<open>The fields of \<^verbatim>\<open>BasicPrepParams\<close> that planning reads and writes.\<close>

record BasicPrepParams =
  accelDistance :: real
  decelStartDistance :: real
  accelClocks :: real
  decelClocks :: real

text \<open>The four flags of the plan; the segment counts are set when the segments are built.\<close>

record InputShaperPlan =
  shapeAccelStart :: bool
  shapeAccelEnd :: bool
  shapeDecelStart :: bool
  shapeDecelEnd :: bool

text \<open>\<^verbatim>\<open>InputShaperPlan plan;\<close> clears all the fields.\<close>

definition clearPlan :: InputShaperPlan where
  "clearPlan = \<lparr>shapeAccelStart = False, shapeAccelEnd = False,
                shapeDecelStart = False, shapeDecelEnd = False\<rparr>"

subsection \<open>The extra distances (lines 705 to 763)\<close>

definition GetExtraAccelStartDistance :: "AxisShaper \<Rightarrow> DDA \<Rightarrow> real" where
  "GetExtraAccelStartDistance s dda =
     fst (fold (\<lambda>seg (extraDistance, u).
                  (let segTime = durations s ! seg;
                       speedChange = coefficients s ! seg * acceleration dda * segTime
                   in (extraDistance + (1 - coefficients s ! seg) * (u + 0.5 * speedChange) * segTime,
                       u + speedChange)))
               [0..<numExtraImpulses s] (0, startSpeed dda))"

definition GetExtraAccelEndDistance :: "AxisShaper \<Rightarrow> DDA \<Rightarrow> real" where
  "GetExtraAccelEndDistance s dda =
     fst (fold (\<lambda>seg (extraDistance, v).
                  (let segTime = durations s ! seg;
                       speedChange = (1 - coefficients s ! seg) * acceleration dda * segTime
                   in (extraDistance + coefficients s ! seg * (v - 0.5 * speedChange) * segTime,
                       v - speedChange)))
               (rev [0..<numExtraImpulses s]) (0, topSpeed dda))"

definition GetExtraDecelStartDistance :: "AxisShaper \<Rightarrow> DDA \<Rightarrow> real" where
  "GetExtraDecelStartDistance s dda =
     fst (fold (\<lambda>seg (extraDistance, u).
                  (let segTime = durations s ! seg;
                       speedChange = coefficients s ! seg * deceleration dda * segTime
                   in (extraDistance + (1 - coefficients s ! seg) * (u - 0.5 * speedChange) * segTime,
                       u - speedChange)))
               [0..<numExtraImpulses s] (0, topSpeed dda))"

definition GetExtraDecelEndDistance :: "AxisShaper \<Rightarrow> DDA \<Rightarrow> real" where
  "GetExtraDecelEndDistance s dda =
     fst (fold (\<lambda>seg (extraDistance, v).
                  (let segTime = durations s ! seg;
                       speedChange = (1 - coefficients s ! seg) * deceleration dda * segTime
                   in (extraDistance + coefficients s ! seg * (v + 0.5 * speedChange) * segTime,
                       v + speedChange)))
               (rev [0..<numExtraImpulses s]) (0, endSpeed dda))"

subsection \<open>The impulse shapers (lines 402 to 502)\<close>

text \<open>The two conditions on the neighbours, lines 411 and 417.\<close>

definition prevAllowsShaping :: "DDA \<Rightarrow> bool" where
  "prevAllowsShaping dda =
     ((prevState dda \<noteq> DDA_frozen \<and> prevState dda \<noteq> DDA_executing)
      \<or> \<not> prevWasAccelOnlyMove dda)"

definition nextAllowsShaping :: "DDA \<Rightarrow> bool" where
  "nextAllowsShaping dda =
     (nextState dda \<noteq> DDA_provisional \<or> \<not> nextIsDecelerationMove dda)"

text \<open>Lines 409 to 417: the plan we would like.\<close>

definition ProposePlan :: "AxisShaper \<Rightarrow> DDA \<Rightarrow> BasicPrepParams \<Rightarrow> InputShaperPlan" where
  "ProposePlan s dda params =
     \<lparr>shapeAccelStart =
        (accelClocks params + clocksLostAtStart s \<ge> totalShapingClocks s
         \<and> prevAllowsShaping dda),
      shapeAccelEnd =
        (accelClocks params + clocksLostAtEnd s \<ge> totalShapingClocks s
         \<and> decelStartDistance params > accelDistance params),
      shapeDecelStart =
        (decelClocks params + clocksLostAtStart s \<ge> totalShapingClocks s
         \<and> decelStartDistance params > accelDistance params),
      shapeDecelEnd =
        (decelClocks params + clocksLostAtEnd s \<ge> totalShapingClocks s
         \<and> nextAllowsShaping dda)\<rparr>"

text \<open>Lines 431 to 435: \<^verbatim>\<open>extraAccelDistance\<close>.\<close>

definition extraAccelDistance :: "AxisShaper \<Rightarrow> DDA \<Rightarrow> InputShaperPlan \<Rightarrow> real" where
  "extraAccelDistance s dda plan =
     (let extra = (if shapeAccelStart plan then GetExtraAccelStartDistance s dda else 0)
      in if shapeAccelEnd plan then extra + GetExtraAccelEndDistance s dda else extra)"

text \<open>Lines 421 to 460: see if we can shape the acceleration.\<close>

definition ShapeAcceleration ::
  "AxisShaper \<Rightarrow> DDA \<Rightarrow> InputShaperPlan \<times> BasicPrepParams \<Rightarrow> InputShaperPlan \<times> BasicPrepParams" where
  "ShapeAcceleration s dda pp =
     (case pp of (plan, params) \<Rightarrow>
        if shapeAccelStart plan \<or> shapeAccelEnd plan
        then
          (if shapeAccelStart plan \<and> shapeAccelEnd plan
              \<and> accelClocks params < 2 * totalShapingClocks s
           then (plan\<lparr>shapeAccelStart := False, shapeAccelEnd := False\<rparr>, params)
           else if accelDistance params + extraAccelDistance s dda plan \<le> decelStartDistance params
           then
             (let params1 = params\<lparr>accelDistance :=
                                     accelDistance params + extraAccelDistance s dda plan\<rparr>;
                  params2 = (if shapeAccelStart plan
                             then params1\<lparr>accelClocks := accelClocks params1 + clocksLostAtStart s\<rparr>
                             else params1);
                  params3 = (if shapeAccelEnd plan
                             then params2\<lparr>accelClocks := accelClocks params2 + clocksLostAtEnd s\<rparr>
                             else params2)
              in (plan, params3))
           else (plan\<lparr>shapeAccelStart := False, shapeAccelEnd := False\<rparr>, params))
        else (plan, params))"

text \<open>Lines 472 to 476: \<^verbatim>\<open>extraDecelDistance\<close>.\<close>

definition extraDecelDistance :: "AxisShaper \<Rightarrow> DDA \<Rightarrow> InputShaperPlan \<Rightarrow> real" where
  "extraDecelDistance s dda plan =
     (let extra = (if shapeDecelStart plan then GetExtraDecelStartDistance s dda else 0)
      in if shapeDecelEnd plan then extra + GetExtraDecelEndDistance s dda else extra)"

text \<open>Lines 462 to 500: see if we can shape the deceleration.\<close>

definition ShapeDeceleration ::
  "AxisShaper \<Rightarrow> DDA \<Rightarrow> InputShaperPlan \<times> BasicPrepParams \<Rightarrow> InputShaperPlan \<times> BasicPrepParams" where
  "ShapeDeceleration s dda pp =
     (case pp of (plan, params) \<Rightarrow>
        if shapeDecelStart plan \<or> shapeDecelEnd plan
        then
          (if shapeDecelStart plan \<and> shapeDecelEnd plan
              \<and> decelClocks params < 2 * totalShapingClocks s
           then (plan\<lparr>shapeDecelStart := False, shapeDecelEnd := False\<rparr>, params)
           else if accelDistance params + extraDecelDistance s dda plan \<le> decelStartDistance params
           then
             (let params1 = params\<lparr>decelStartDistance :=
                                     decelStartDistance params - extraDecelDistance s dda plan\<rparr>;
                  params2 = (if shapeDecelStart plan
                             then params1\<lparr>decelClocks := decelClocks params1 + clocksLostAtStart s\<rparr>
                             else params1);
                  params3 = (if shapeDecelEnd plan
                             then params2\<lparr>decelClocks := decelClocks params2 + clocksLostAtEnd s\<rparr>
                             else params2)
              in (plan, params3))
           else (plan\<lparr>shapeDecelStart := False, shapeDecelEnd := False\<rparr>, params))
        else (plan, params))"

text \<open>
  Lines 406 to 502, from the parameters \<^verbatim>\<open>SetFromDDA\<close> has set: the plan proposed, then
  checked for the acceleration, then for the deceleration.
\<close>

definition PlanImpulses :: "AxisShaper \<Rightarrow> DDA \<Rightarrow> BasicPrepParams \<Rightarrow> InputShaperPlan \<times> BasicPrepParams" where
  "PlanImpulses s dda params =
     ShapeDeceleration s dda (ShapeAcceleration s dda (ProposePlan s dda params, params))"

subsection \<open>Dynamic acceleration adjustment (lines 273 to 393)\<close>

text \<open>
  The embedding follows the program on the moves and shaper states the firmware
  produces: acceleration, deceleration and total distance of the move are positive, and
  so is the period \<^verbatim>\<open>durations[0]\<close> that \<^verbatim>\<open>Configure\<close> stores for the type \<open>daa\<close>. On
  those, one quotient of the block has a zero divisor: the deceleration distance
  proposed for a move that ends at its top speed is \<^verbatim>\<open>0/0\<close>, a NaN, and the test of
  line 322 is false on it.
\<close>

text \<open>
  Lines 278 to 297: \<^verbatim>\<open>adjustAcceleration\<close>, \<^verbatim>\<open>proposedAcceleration\<close> and
  \<^verbatim>\<open>proposedAccelDistance\<close>. \<^verbatim>\<open>idealPeriod\<close> is \<^verbatim>\<open>durations[0]\<close>. The acceleration
  proposed is positive, since \<^verbatim>\<open>topSpeed > startSpeed\<close> here.
\<close>

definition DaaProposeAcceleration :: "AxisShaper \<Rightarrow> DDA \<Rightarrow> bool \<times> real \<times> real" where
  "DaaProposeAcceleration s dda =
     (let idealPeriod = durations s ! 0
      in if topSpeed dda > startSpeed dda \<and> prevAllowsShaping dda
         then
           (let accelTime = (topSpeed dda - startSpeed dda) / acceleration dda
            in if accelTime < idealPeriod
               then (let proposedAcceleration = (topSpeed dda - startSpeed dda) / idealPeriod
                     in (True, proposedAcceleration,
                         (fsquare (topSpeed dda) - fsquare (startSpeed dda))
                           / (2 * proposedAcceleration)))
               else if accelTime < idealPeriod * 2
               then (let proposedAcceleration = (topSpeed dda - startSpeed dda) / (idealPeriod * 2)
                     in (True, proposedAcceleration,
                         (fsquare (topSpeed dda) - fsquare (startSpeed dda))
                           / (2 * proposedAcceleration)))
               else (False, acceleration dda, beforePrepare_accelDistance dda))
         else (False, acceleration dda, beforePrepare_accelDistance dda))"

text \<open>
  Lines 299 to 318: the same for the deceleration. No test on the speeds guards this
  block: with \<^verbatim>\<open>topSpeed = endSpeed\<close> the deceleration proposed is 0 and the distance
  proposed is \<^verbatim>\<open>0/0\<close>.
\<close>

definition DaaProposeDeceleration :: "AxisShaper \<Rightarrow> DDA \<Rightarrow> bool \<times> real \<times> fl" where
  "DaaProposeDeceleration s dda =
     (let idealPeriod = durations s ! 0
      in if nextAllowsShaping dda
         then
           (let decelTime = (topSpeed dda - endSpeed dda) / deceleration dda
            in if decelTime < idealPeriod
               then (let proposedDeceleration = (topSpeed dda - endSpeed dda) / idealPeriod
                     in (True, proposedDeceleration,
                         fl_quot (fsquare (topSpeed dda) - fsquare (endSpeed dda))
                                 (2 * proposedDeceleration)))
               else if decelTime < idealPeriod * 2
               then (let proposedDeceleration = (topSpeed dda - endSpeed dda) / (idealPeriod * 2)
                     in (True, proposedDeceleration,
                         fl_quot (fsquare (topSpeed dda) - fsquare (endSpeed dda))
                                 (2 * proposedDeceleration)))
               else (False, deceleration dda, Finite (beforePrepare_decelDistance dda)))
         else (False, deceleration dda, Finite (beforePrepare_decelDistance dda)))"

text \<open>Line 338, and lines 341 and 342: the accelerate-decelerate move.\<close>

definition DaaProposedTopSpeed :: "AxisShaper \<Rightarrow> DDA \<Rightarrow> real" where
  "DaaProposedTopSpeed s dda =
     totalDistance dda / (durations s ! 0) - (startSpeed dda + endSpeed dda) / 2"

definition DaaTriangleAcceleration :: "AxisShaper \<Rightarrow> DDA \<Rightarrow> real" where
  "DaaTriangleAcceleration s dda =
     (2 * totalDistance dda - ((3 * startSpeed dda + endSpeed dda) * (durations s ! 0)))
       / (2 * fsquare (durations s ! 0))"

definition DaaTriangleDeceleration :: "AxisShaper \<Rightarrow> DDA \<Rightarrow> real" where
  "DaaTriangleDeceleration s dda =
     (2 * totalDistance dda - ((startSpeed dda + 3 * endSpeed dda) * (durations s ! 0)))
       / (2 * fsquare (durations s ! 0))"

text \<open>Lines 358 and 371: the accelerate-only and the decelerate-only move.\<close>

definition DaaAccelOnlyAcceleration :: "DDA \<Rightarrow> real" where
  "DaaAccelOnlyAcceleration dda =
     (fsquare (endSpeed dda) - fsquare (startSpeed dda)) / (2 * totalDistance dda)"

definition DaaDecelOnlyDeceleration :: "DDA \<Rightarrow> real" where
  "DaaDecelOnlyDeceleration dda =
     (fsquare (startSpeed dda) - fsquare (endSpeed dda)) / (2 * totalDistance dda)"

text \<open>
  Lines 333 to 386, when the two proposals do not fit in the move. \<open>None\<close> is a
  \<^verbatim>\<open>break\<close>: it leaves the \<^verbatim>\<open>switch\<close> with the move as it came. \<open>Some\<close> is the move
  rewritten, with which control reaches the end of the block.
\<close>

definition DaaReshape :: "AxisShaper \<Rightarrow> DDA \<Rightarrow> DDA option" where
  "DaaReshape s dda =
     (let idealPeriod = durations s ! 0;
          proposedTopSpeed = DaaProposedTopSpeed s dda
      in if proposedTopSpeed > startSpeed dda \<and> proposedTopSpeed > endSpeed dda
         then
           (let proposedAcceleration = DaaTriangleAcceleration s dda;
                proposedDeceleration = DaaTriangleDeceleration s dda
            in if proposedAcceleration < minimumAcceleration s
                  \<or> proposedDeceleration < minimumAcceleration s
                  \<or> proposedAcceleration > acceleration dda
                  \<or> proposedDeceleration > deceleration dda
               then None
               else Some (dda\<lparr>topSpeed := proposedTopSpeed,
                              acceleration := proposedAcceleration,
                              deceleration := proposedDeceleration,
                              beforePrepare_accelDistance :=
                                startSpeed dda * idealPeriod
                                  + (proposedAcceleration * fsquare idealPeriod) / 2,
                              beforePrepare_decelDistance :=
                                endSpeed dda * idealPeriod
                                  + (proposedDeceleration * fsquare idealPeriod) / 2\<rparr>))
         else if startSpeed dda < endSpeed dda
         then
           (let proposedAcceleration = DaaAccelOnlyAcceleration dda
            in if proposedAcceleration < minimumAcceleration s
               then None
               else Some (dda\<lparr>acceleration := proposedAcceleration,
                              topSpeed := endSpeed dda,
                              beforePrepare_accelDistance := totalDistance dda,
                              beforePrepare_decelDistance := 0\<rparr>))
         else if startSpeed dda > endSpeed dda
         then
           (let proposedDeceleration = DaaDecelOnlyDeceleration dda
            in if proposedDeceleration < minimumAcceleration s
               then None
               else Some (dda\<lparr>deceleration := proposedDeceleration,
                              topSpeed := startSpeed dda,
                              beforePrepare_accelDistance := 0,
                              beforePrepare_decelDistance := totalDistance dda\<rparr>))
         else None)"

text \<open>
  Lines 274 to 393, the whole block. \<open>None\<close> is a \<^verbatim>\<open>break\<close> (lines 326, 347, 361, 374
  and 384), \<open>Some\<close> the move with which control falls through to the default case. The
  sum of the two distances proposed is compared with the total distance as floats are;
  where the test holds the deceleration distance is a number, and it is stored.
\<close>

definition DaaBlock :: "AxisShaper \<Rightarrow> DDA \<Rightarrow> DDA option" where
  "DaaBlock s dda =
     (case DaaProposeAcceleration s dda of
        (adjustAcceleration, proposedAcceleration, proposedAccelDistance) \<Rightarrow>
     (case DaaProposeDeceleration s dda of
        (adjustDeceleration, proposedDeceleration, proposedDecelDistance) \<Rightarrow>
          if adjustAcceleration \<or> adjustDeceleration
          then
            (if fl_le (fl_plus proposedDecelDistance proposedAccelDistance) (totalDistance dda)
             then
               (if proposedAcceleration < minimumAcceleration s
                   \<or> proposedDeceleration < minimumAcceleration s
                then None
                else Some (dda\<lparr>acceleration := proposedAcceleration,
                               deceleration := proposedDeceleration,
                               beforePrepare_accelDistance := proposedAccelDistance,
                               beforePrepare_decelDistance := fl_value proposedDecelDistance\<rparr>))
             else DaaReshape s dda)
          else Some dda))"

text \<open>The move after the block, however the block is left.\<close>

definition DaaAdjust :: "AxisShaper \<Rightarrow> DDA \<Rightarrow> DDA" where
  "DaaAdjust s dda = (case DaaBlock s dda of None \<Rightarrow> dda | Some dda1 \<Rightarrow> dda1)"

subsection \<open>PlanShaping (lines 266 to 503)\<close>

text \<open>
  The \<^verbatim>\<open>switch\<close> of \<^verbatim>\<open>PlanShaping\<close>: the plan, the move and the parameters as they stand
  when the segments are built. \<^verbatim>\<open>params\<close> is passed by reference: the function gets the
  parameters of the caller and \<^verbatim>\<open>SetFromDDA\<close> overwrites them.
  \<^verbatim>\<open>BasicPrepParams::SetFromDDA\<close> is not among the sources and is an argument. A disabled
  shaper and the types \<open>none\<close> and \<open>custom\<close> take the default case; so does \<open>daa\<close> when
  control reaches the end of its block, with the move adjusted. A \<^verbatim>\<open>break\<close> of that
  block leaves the \<^verbatim>\<open>switch\<close> before \<^verbatim>\<open>SetFromDDA\<close> is called, and the parameters stay
  those of the caller. The segments built from the result (lines 505 to 511) are not
  part of the embedding.
\<close>

definition PlanShaping ::
  "(DDA \<Rightarrow> BasicPrepParams) \<Rightarrow> AxisShaper \<Rightarrow> DDA \<Rightarrow> BasicPrepParams \<Rightarrow> bool
     \<Rightarrow> InputShaperPlan \<times> DDA \<times> BasicPrepParams" where
  "PlanShaping SetFromDDA s dda params shapingEnabled =
     (let impulses = (case PlanImpulses s dda (SetFromDDA dda) of
                        (plan, params1) \<Rightarrow> (plan, dda, params1))
      in case (if shapingEnabled then shaperType s else none) of
           daa \<Rightarrow>
             (if SUPPORT_DAA
              then (case DaaBlock s dda of
                      None \<Rightarrow> (clearPlan, dda, params)
                    | Some dda1 \<Rightarrow> (clearPlan, dda1, SetFromDDA dda1))
              else (clearPlan, dda, SetFromDDA dda))
         | zvd \<Rightarrow> impulses
         | zvdd \<Rightarrow> impulses
         | ei2 \<Rightarrow> impulses
         | ei3 \<Rightarrow> impulses
         | none \<Rightarrow> (clearPlan, dda, SetFromDDA dda)
         | custom \<Rightarrow> (clearPlan, dda, SetFromDDA dda))"

section \<open>Example inputs\<close>

text \<open>
  \<^verbatim>\<open>M593 P"zvd" F40 S0\<close> and \<^verbatim>\<open>M593 P"daa" F40 S0\<close> on a fresh shaper (defaults 40 Hz,
  damping 0.1, minimum acceleration 10).
\<close>

definition zvd40 :: AxisShaper where
  "zvd40 = state_of (Configure (AxisShaper_new 40 0.1 10)
                       (M593 (Some 40) None (Some 0) (Some ''zvd'')))"

definition daa40 :: AxisShaper where
  "daa40 = state_of (Configure (AxisShaper_new 40 0.1 10)
                       (M593 (Some 40) None (Some 0) (Some ''daa'')))"

text \<open>
  \<^verbatim>\<open>M593 P"daa" F32 S0\<close>, and \<^verbatim>\<open>M593 P"ei2" F50 S0.28\<close>, a damped shaper: the damped
  frequency is 50 times 0.96, that is 48 Hz.
\<close>

definition daa32 :: AxisShaper where
  "daa32 = state_of (Configure (AxisShaper_new 40 0.1 10)
                       (M593 (Some 32) None (Some 0) (Some ''daa'')))"

definition ei2damped :: AxisShaper where
  "ei2damped = state_of (Configure (AxisShaper_new 40 0.1 10)
                           (M593 (Some 50) None (Some 0.28) (Some ''ei2'')))"

text \<open>
  A move between idle neighbours, its two distances those of a trapezoidal profile:
  start, top and end speed, acceleration, deceleration, total distance.
\<close>

definition trapezoid :: "real \<Rightarrow> real \<Rightarrow> real \<Rightarrow> real \<Rightarrow> real \<Rightarrow> real \<Rightarrow> DDA" where
  "trapezoid u v w a d len =
     \<lparr>startSpeed = u, topSpeed = v, endSpeed = w, acceleration = a, deceleration = d,
      totalDistance = len,
      beforePrepare_accelDistance = (fsquare v - fsquare u) / (2 * a),
      beforePrepare_decelDistance = (fsquare v - fsquare w) / (2 * d),
      prevState = DDA_completed, prevWasAccelOnlyMove = False,
      nextState = DDA_provisional, nextIsDecelerationMove = False\<rparr>"

text \<open>
  An instance for the argument \<open>SetFromDDA\<close> of \<open>PlanShaping\<close>: the distances and the
  clock counts of the trapezoidal profile of the move.
\<close>

definition trapezoidParams :: "DDA \<Rightarrow> BasicPrepParams" where
  "trapezoidParams dda =
     \<lparr>accelDistance = beforePrepare_accelDistance dda,
      decelStartDistance = totalDistance dda - beforePrepare_decelDistance dda,
      accelClocks = (topSpeed dda - startSpeed dda) * StepClockRate / acceleration dda,
      decelClocks = (topSpeed dda - endSpeed dda) * StepClockRate / deceleration dda\<rparr>"

section \<open>Properties of Configure\<close>

lemmas Configure_defs =
  Configure_def ConfigureF_def ConfigureL_def ConfigureS_def ConfigureP_def seenFLS_def
  GetLimitedFValue_def MinimumInputShapingFrequency_def MaximumInputShapingFrequency_def
  StepClockRate_def SetImpulses_def fsquare_def Let_def ComputeTotals_def ComputeOverlapped_def
  totals_step_def overlapped_step_def overlapped_val_def store_array_def fl_recip_def
  SUPPORT_DAA_def MaxExtraImpulses_def AxisShaper_new_def M593_def state_of_def

lemma name_custom: "InputShaperType_of_name ''custom'' = Some custom"
  by simp

lemma name_unknown: "InputShaperType_of_name ''foo'' = None"
  by simp

lemma zvd40_run:
  "Configure (AxisShaper_new 40 0.1 10) (M593 (Some 40) None (Some 0) (Some ''zvd''))
     = Returned GCodeResult_ok ReplyUnchanged zvd40"
  by (simp add: zvd40_def Configure_defs)

lemma zvd40_eq:
  "zvd40 = \<lparr>numExtraImpulses = 2, frequency = 40, zeta = 0,
        minimumAcceleration = 10, shaperType = zvd,
        coefficients = [1 / 4, 3 / 4, 0, 0],
        durations = [1 / 80, 1 / 80, 0, 0], totalDuration = 1 / 80,
        totalShapingClocks = 9375, clocksLostAtStart = 28125 / 4,
        clocksLostAtEnd = 9375 / 4,
        overlappedCoefficients =
          [PlusInf, PlusInf, PlusInf, PlusInf, Finite 0, Finite 0, Finite 0, Finite 0],
        overlappedAverageAcceleration = PlusInf\<rparr>"
  by (simp add: zvd40_def Configure_defs eval_nat_numeral)

lemma daa40_eq:
  "daa40 = \<lparr>numExtraImpulses = 0, frequency = 40, zeta = 0,
        minimumAcceleration = 10, shaperType = daa,
        coefficients = [0, 0, 0, 0], durations = [1 / 40, 0, 0, 0],
        totalDuration = 0, totalShapingClocks = 0, clocksLostAtStart = 0,
        clocksLostAtEnd = 0,
        overlappedCoefficients =
          [Finite 0, Finite 0, Finite 0, Finite 0, Finite 0, Finite 0, Finite 0, Finite 0],
        overlappedAverageAcceleration = NaN\<rparr>"
  by (simp add: daa40_def Configure_defs eval_nat_numeral)

declare InputShaperType_of_name.simps [simp del]

subsection \<open>The steps of Configure\<close>

lemma ConfigureF_Some:
  "ConfigureF s gb = Some s1 \<Longrightarrow>
     s1 = s\<lparr>frequency := (case paramF gb of None \<Rightarrow> frequency s | Some v \<Rightarrow> v)\<rparr>"
  by (auto simp: ConfigureF_def GetLimitedFValue_def split: option.splits if_splits)

lemma ConfigureL_eq:
  "ConfigureL s gb =
     s\<lparr>minimumAcceleration :=
         (case paramL gb of None \<Rightarrow> minimumAcceleration s | Some v \<Rightarrow> max v 1)\<rparr>"
  by (simp add: ConfigureL_def split: option.splits)

lemma ConfigureS_Some:
  "ConfigureS s gb = Some s1 \<Longrightarrow>
     s1 = s\<lparr>zeta := (case paramS gb of None \<Rightarrow> zeta s | Some v \<Rightarrow> v)\<rparr>"
  by (auto simp: ConfigureS_def GetLimitedFValue_def split: option.splits if_splits)

lemma ConfigureP_Inr:
  "ConfigureP s gb seen = Inr (s4, seen') \<Longrightarrow> \<exists>t. s4 = s\<lparr>shaperType := t\<rparr>"
  by (auto simp: ConfigureP_def split: option.splits if_splits intro: exI [of _ "shaperType s"])

lemma ConfigureF_inRange: "paramsInRange gb \<Longrightarrow> ConfigureF s gb \<noteq> None"
  by (auto simp: paramsInRange_def ConfigureF_def GetLimitedFValue_def split: option.splits)

lemma ConfigureS_inRange: "paramsInRange gb \<Longrightarrow> ConfigureS s gb \<noteq> None"
  by (auto simp: paramsInRange_def ConfigureS_def GetLimitedFValue_def split: option.splits)

lemma SetImpulses_Inl:
  assumes "SetImpulses s gb = Inl out"
  shows "out = Thrown s \<or>
         (\<exists>s2. out = Returned GCodeResult_error (ReplyText ''Too few durations given'') s2
               \<and> shaperType s2 = none \<and> frequency s2 = frequency s \<and> zeta s2 = zeta s
               \<and> minimumAcceleration s2 = minimumAcceleration s)"
  using assms
  by (cases "shaperType s")
     (auto simp: SetImpulses_def Let_def split: option.splits if_splits)

lemma SetImpulses_custom_mismatch:
  assumes "shaperType s = custom" "paramH gb = Some hs" "paramT gb = Some ts"
    and "length ts \<noteq> length hs"
  shows "SetImpulses s gb =
     Inl (Returned GCodeResult_error (ReplyText ''Too few durations given'')
           (s\<lparr>coefficients := store_array (coefficients s) hs,
              durations := store_array (durations s) ts,
              shaperType := none\<rparr>))"
  using assms by (simp add: SetImpulses_def Let_def)

lemma fold_totals:
  "fold (totals_step s) ixs (td, ls, le) =
     (td + (\<Sum>i\<leftarrow>ixs. durations s ! i),
      ls + (\<Sum>i\<leftarrow>ixs. (1 - coefficients s ! i) * durations s ! i),
      le + (\<Sum>i\<leftarrow>ixs. coefficients s ! i * durations s ! i))"
  by (induction ixs arbitrary: td ls le) (simp_all add: totals_step_def add.assoc)

lemma ComputeTotals_fields:
  "totalDuration (ComputeTotals s) = (\<Sum>i\<leftarrow>[0..<numExtraImpulses s - 1]. durations s ! i)"
  "totalShapingClocks (ComputeTotals s)
     = (\<Sum>i\<leftarrow>[0..<numExtraImpulses s - 1]. durations s ! i) * StepClockRate"
  "clocksLostAtStart (ComputeTotals s)
     = (\<Sum>i\<leftarrow>[0..<numExtraImpulses s - 1]. (1 - coefficients s ! i) * durations s ! i)
       * StepClockRate"
  "clocksLostAtEnd (ComputeTotals s)
     = (\<Sum>i\<leftarrow>[0..<numExtraImpulses s - 1]. coefficients s ! i * durations s ! i)
       * StepClockRate"
  "durations (ComputeTotals s) = durations s"
  "coefficients (ComputeTotals s) = coefficients s"
  "numExtraImpulses (ComputeTotals s) = numExtraImpulses s"
  by (simp_all add: ComputeTotals_def fold_totals)

lemma ComputeOverlapped_fields:
  "totalDuration (ComputeOverlapped s) = totalDuration s"
  "totalShapingClocks (ComputeOverlapped s) = totalShapingClocks s"
  "clocksLostAtStart (ComputeOverlapped s) = clocksLostAtStart s"
  "clocksLostAtEnd (ComputeOverlapped s) = clocksLostAtEnd s"
  "durations (ComputeOverlapped s) = durations s"
  "coefficients (ComputeOverlapped s) = coefficients s"
  "numExtraImpulses (ComputeOverlapped s) = numExtraImpulses s"
  by (simp_all add: ComputeOverlapped_def Let_def split: prod.splits)

lemma Configure_synthesis:
  assumes "Configure s gb = Returned GCodeResult_ok ReplyUnchanged s'"
  shows "\<exists>s5. s' = ComputeOverlapped (ComputeTotals s5)"
  using assms
  by (auto simp: Configure_def Let_def Report_def dest!: SetImpulses_Inl
           split: option.splits sum.splits prod.splits if_splits)

lemma lost_sum:
  "(\<Sum>i\<leftarrow>ixs. (1 - (c i::real)) * d i) + (\<Sum>i\<leftarrow>ixs. c i * d i) = (\<Sum>i\<leftarrow>ixs. d i)"
  by (induction ixs) (simp_all add: algebra_simps)

subsection \<open>The overlapped table\<close>

text \<open>
  With every value of the first loop positive, \<^verbatim>\<open>maxVal\<close> is never replaced: the test
  of line 220 asks for a value below it.
\<close>

lemma fold_overlapped_positive:
  assumes "\<forall>i\<in>set ixs. 0 \<le> overlapped_val s i"
  shows "fold (overlapped_step s) ixs (0, t, vs)
           = (0, t + (\<Sum>i\<leftarrow>ixs. overlapped_val s i), vs @ map (overlapped_val s) ixs)"
  using assms
  by (induction ixs arbitrary: t vs) (simp_all add: overlapped_step_def Let_def add.assoc)

lemma overlapped_val_positive:
  assumes "\<forall>i<numExtraImpulses s. 0 < coefficients s ! i \<and> coefficients s ! i < 1"
    and "i < 2 * numExtraImpulses s"
  shows "0 < overlapped_val s i"
proof (cases "i < numExtraImpulses s")
  case True
  then show ?thesis using assms by (simp add: overlapped_val_def)
next
  case False
  then have "i - numExtraImpulses s < numExtraImpulses s" using assms(2) by simp
  then have "coefficients s ! (i - numExtraImpulses s) < 1" using assms(1) by blast
  then show ?thesis using False by (simp add: overlapped_val_def)
qed

lemma overlapped_all_infinite:
  assumes "\<forall>i<numExtraImpulses s. 0 < coefficients s ! i \<and> coefficients s ! i < 1"
    and "i < 2 * numExtraImpulses s"
  shows "overlappedCoefficients (ComputeOverlapped s) ! i = PlusInf"
proof -
  have pos: "\<forall>j\<in>set [0..<2 * numExtraImpulses s]. 0 \<le> overlapped_val s j"
    using overlapped_val_positive [OF assms(1)] by (auto intro: less_imp_le)
  have "overlappedCoefficients (ComputeOverlapped s)
          = store_array (overlappedCoefficients s)
              (map (\<lambda>v. fl_scale v PlusInf) (map (overlapped_val s) [0..<2 * numExtraImpulses s]))"
    by (simp add: ComputeOverlapped_def fold_overlapped_positive [OF pos] fl_recip_def)
  then have "overlappedCoefficients (ComputeOverlapped s) ! i
          = fl_scale (overlapped_val s i) PlusInf"
    using assms(2) by (simp add: store_array_def nth_append)
  then show ?thesis using overlapped_val_positive [OF assms] by simp
qed

subsection \<open>The claims about Configure\<close>

text \<open>
  C1. The claim: after a synthesis with \<open>n > 0\<close> impulses the overlapped table, scaled
  by the reciprocal of its greatest value, has greatest element 1. The source keeps in
  \<^verbatim>\<open>maxVal\<close> the least value below zero instead (line 220 tests \<^verbatim>\<open>maxVal > val\<close>).
  For \<^verbatim>\<open>M593 P"zvd" F40 S0\<close> the coefficients are 1/4 and 3/4, the four values
  1/4, 3/4, 3/4, 1/4, \<^verbatim>\<open>maxVal\<close> stays 0, the scaling is \<^verbatim>\<open>1.0/0.0\<close>, and the four
  entries of the table are infinite: none of them is 1.
\<close>

theorem C1_overlapped_peak_infinite:
  "numExtraImpulses zvd40 = 2
   \<and> take 2 (coefficients zvd40) = [1 / 4, 3 / 4]
   \<and> map (overlapped_val zvd40) [0, 1, 2, 3] = [1 / 4, 3 / 4, 3 / 4, 1 / 4]
   \<and> take (2 * numExtraImpulses zvd40) (overlappedCoefficients zvd40)
       = [PlusInf, PlusInf, PlusInf, PlusInf]
   \<and> Finite 1 \<notin> set (take (2 * numExtraImpulses zvd40) (overlappedCoefficients zvd40))"
  by (simp add: zvd40_eq overlapped_val_def)

text \<open>
  C3. The claim: the \<open>n\<close> durations sum to \<^verbatim>\<open>totalDuration\<close>. The loop of line 200 stops
  one short. For \<^verbatim>\<open>M593 P"zvd" F40 S0\<close> the two durations are 1/80 s each and
  \<^verbatim>\<open>totalDuration\<close> is 1/80 s, not 1/40 s.
\<close>

theorem C3_total_duration_one_short:
  "numExtraImpulses zvd40 = 2
   \<and> take 2 (durations zvd40) = [1 / 80, 1 / 80]
   \<and> (\<Sum>i\<leftarrow>[0..<numExtraImpulses zvd40]. durations zvd40 ! i) = 1 / 40
   \<and> totalDuration zvd40 = 1 / 80
   \<and> totalDuration zvd40 \<noteq> (\<Sum>i\<leftarrow>[0..<numExtraImpulses zvd40]. durations zvd40 ! i)"
  by (simp add: zvd40_eq eval_nat_numeral)

text \<open>
  C4. After every synthesis (\<^verbatim>\<open>Configure\<close> returns \<open>ok\<close> and writes no reply),
  \<^verbatim>\<open>clocksLostAtStart + clocksLostAtEnd = totalShapingClocks\<close>, and both are the step
  clock rate times the sum of the durations of index below \<open>n - 1\<close>.
\<close>

theorem C4_lost_time_partition:
  assumes "Configure s gb = Returned GCodeResult_ok ReplyUnchanged s'"
  shows "clocksLostAtStart s' + clocksLostAtEnd s' = totalShapingClocks s'
       \<and> totalShapingClocks s'
           = StepClockRate * (\<Sum>i\<leftarrow>[0..<numExtraImpulses s' - 1]. durations s' ! i)"
proof -
  from Configure_synthesis [OF assms]
  obtain s5 where s': "s' = ComputeOverlapped (ComputeTotals s5)" ..
  have "clocksLostAtStart s' + clocksLostAtEnd s' = totalShapingClocks s'"
    unfolding s' ComputeOverlapped_fields ComputeTotals_fields
    by (simp add: distrib_right [symmetric] lost_sum)
  moreover have "totalShapingClocks s'
      = StepClockRate * (\<Sum>i\<leftarrow>[0..<numExtraImpulses s' - 1]. durations s' ! i)"
    unfolding s' ComputeOverlapped_fields ComputeTotals_fields by simp
  ultimately show ?thesis by simp
qed

theorem C4_lost_time_partition_witness:
  "Configure (AxisShaper_new 40 0.1 10) (M593 (Some 40) None (Some 0) (Some ''zvd''))
     = Returned GCodeResult_ok ReplyUnchanged zvd40
   \<and> clocksLostAtStart zvd40 = 28125 / 4 \<and> clocksLostAtEnd zvd40 = 9375 / 4
   \<and> clocksLostAtStart zvd40 + clocksLostAtEnd zvd40 = totalShapingClocks zvd40
   \<and> totalShapingClocks zvd40
       = StepClockRate * (\<Sum>i\<leftarrow>[0..<numExtraImpulses zvd40 - 1]. durations zvd40 ! i)"
  using C4_lost_time_partition [OF zvd40_run] zvd40_run
  by (simp add: zvd40_eq)

text \<open>
  C5. \<^verbatim>\<open>M593 P"ei2" F50 S0\<close>, on any shaper whose arrays have their
  \<open>MaxExtraImpulses\<close> entries, sets three impulses with coefficients 0.16054, 0.49965
  and 0.84054 and durations 0.49890/50, (0.99748 - 0.49890)/50 and
  (1.49920 - 0.99748)/50 seconds, that is 0.0099780, 0.0099716 and 0.0100344.
\<close>

theorem C5_ei2_F50_undamped:
  assumes "length (coefficients s) = MaxExtraImpulses"
    and "length (durations s) = MaxExtraImpulses"
  shows "\<exists>s'. Configure s (M593 (Some 50) None (Some 0) (Some ''ei2''))
                = Returned GCodeResult_ok ReplyUnchanged s'
     \<and> numExtraImpulses s' = 3
     \<and> coefficients s' ! 0 = 0.16054
     \<and> coefficients s' ! 1 = 0.16054 + 0.33911 \<and> coefficients s' ! 1 = 0.49965
     \<and> coefficients s' ! 2 = 0.49965 + 0.34089 \<and> coefficients s' ! 2 = 0.84054
     \<and> durations s' ! 0 = 0.49890 / 50 \<and> durations s' ! 0 = 0.0099780
     \<and> durations s' ! 1 = (0.99748 - 0.49890) / 50 \<and> durations s' ! 1 = 0.0099716
     \<and> durations s' ! 2 = (1.49920 - 0.99748) / 50 \<and> durations s' ! 2 = 0.0100344"
  using assms
  by (simp add: Configure_defs InputShaperType_of_name.simps eval_nat_numeral)

theorem C5_ei2_F50_undamped_witness:
  "length (coefficients (AxisShaper_new 40 0.1 10)) = MaxExtraImpulses
   \<and> length (durations (AxisShaper_new 40 0.1 10)) = MaxExtraImpulses
   \<and> (\<exists>s'. Configure (AxisShaper_new 40 0.1 10) (M593 (Some 50) None (Some 0) (Some ''ei2''))
                = Returned GCodeResult_ok ReplyUnchanged s'
          \<and> numExtraImpulses s' = 3
          \<and> take 3 (coefficients s') = [0.16054, 0.49965, 0.84054]
          \<and> take 3 (durations s') = [0.0099780, 0.0099716, 0.0100344])"
proof -
  have l: "length (coefficients (AxisShaper_new 40 0.1 10)) = MaxExtraImpulses"
    "length (durations (AxisShaper_new 40 0.1 10)) = MaxExtraImpulses"
    by (simp_all add: AxisShaper_new_def)
  from C5_ei2_F50_undamped [OF l]
  obtain s' where r: "Configure (AxisShaper_new 40 0.1 10) (M593 (Some 50) None (Some 0) (Some ''ei2''))
                = Returned GCodeResult_ok ReplyUnchanged s'"
    and "numExtraImpulses s' = 3" by blast
  have s': "s' = state_of (Configure (AxisShaper_new 40 0.1 10) (M593 (Some 50) None (Some 0) (Some ''ei2'')))"
    by (simp add: r state_of_def)
  have "take 3 (coefficients s') = [0.16054, 0.49965, 0.84054]
      \<and> take 3 (durations s') = [0.0099780, 0.0099716, 0.0100344]
      \<and> numExtraImpulses s' = 3"
    unfolding s'
    by (simp add: Configure_defs InputShaperType_of_name.simps eval_nat_numeral)
  with l r show ?thesis by blast
qed

text \<open>
  C6. A command for the type \<open>custom\<close> (named by \<open>P\<close>, or current and some of \<open>F\<close>, \<open>L\<close>,
  \<open>S\<close> given) whose \<open>T\<close> array has another number of elements than its \<open>H\<close> array, the
  values of \<open>F\<close> and \<open>S\<close> being in range: \<^verbatim>\<open>Configure\<close> returns an error, the reply is
  "Too few durations given", and the type is \<open>none\<close>. The numbers of elements are those
  \<^verbatim>\<open>GetFloatArray\<close> reports.
\<close>

theorem C6_too_few_durations:
  assumes custom: "paramP gb = Some ''custom''
                   \<or> (paramP gb = None \<and> shaperType s = custom \<and> seenFLS gb)"
    and H: "paramH gb = Some hs" and T: "paramT gb = Some ts"
    and len: "length ts \<noteq> length hs"
    and range: "paramsInRange gb"
  shows "\<exists>s'. Configure s gb
                = Returned GCodeResult_error (ReplyText ''Too few durations given'') s'
           \<and> shaperType s' = none"
proof -
  obtain s1 where s1: "ConfigureF s gb = Some s1"
    using ConfigureF_inRange [OF range, of s] by auto
  obtain s3 where s3: "ConfigureS (ConfigureL s1 gb) gb = Some s3"
    using ConfigureS_inRange [OF range, of "ConfigureL s1 gb"] by auto
  have ty: "shaperType s3 = shaperType s"
    using ConfigureF_Some [OF s1] ConfigureS_Some [OF s3] by (simp add: ConfigureL_eq)
  have "\<exists>s4. ConfigureP s3 gb (seenFLS gb) = Inr (s4, True) \<and> shaperType s4 = custom"
    using custom ty by (auto simp: ConfigureP_def name_custom)
  then obtain s4 where s4: "ConfigureP s3 gb (seenFLS gb) = Inr (s4, True)"
    and c4: "shaperType s4 = custom" by blast
  show ?thesis
    by (simp add: Configure_def s1 s3 s4 SetImpulses_custom_mismatch [OF c4 H T len])
qed

theorem C6_too_few_durations_witness:
  "paramsInRange \<lparr>paramF = Some 50, paramL = None, paramS = None, paramP = Some ''custom'',
                   paramH = Some [0.2, 0.5, 0.8], paramT = Some [0.01, 0.01]\<rparr>
   \<and> length [0.01, 0.01 :: real] \<noteq> length [0.2, 0.5, 0.8 :: real]
   \<and> (\<exists>s'. Configure zvd40
               \<lparr>paramF = Some 50, paramL = None, paramS = None, paramP = Some ''custom'',
                paramH = Some [0.2, 0.5, 0.8], paramT = Some [0.01, 0.01]\<rparr>
              = Returned GCodeResult_error (ReplyText ''Too few durations given'') s'
            \<and> shaperType s' = none)"
proof -
  let ?gb = "\<lparr>paramF = Some 50, paramL = None, paramS = None, paramP = Some ''custom'',
               paramH = Some [0.2, 0.5, 0.8], paramT = Some [0.01, 0.01]\<rparr>"
  have r: "paramsInRange ?gb"
    by (simp add: paramsInRange_def MinimumInputShapingFrequency_def
          MaximumInputShapingFrequency_def StepClockRate_def)
  have "paramP ?gb = Some ''custom''
          \<or> (paramP ?gb = None \<and> shaperType zvd40 = custom \<and> seenFLS ?gb)"
    by simp
  from C6_too_few_durations [OF this _ _ _ r, of "[0.2, 0.5, 0.8]" "[0.01, 0.01]"] r
  show ?thesis by simp
qed

text \<open>
  C10. When \<^verbatim>\<open>Configure\<close> returns an error, the shaper it leaves has the frequency,
  the minimum acceleration (clamped at 1) and the damping the command gave:
  the values stored before the error are not taken back.
\<close>

theorem C10_error_keeps_parameters:
  assumes err: "Configure s gb = Returned GCodeResult_error r s'"
  shows "frequency s' = (case paramF gb of Some v \<Rightarrow> v | None \<Rightarrow> frequency s)
       \<and> minimumAcceleration s'
           = (case paramL gb of Some v \<Rightarrow> max v 1 | None \<Rightarrow> minimumAcceleration s)
       \<and> zeta s' = (case paramS gb of Some v \<Rightarrow> v | None \<Rightarrow> zeta s)"
proof -
  obtain s1 where s1: "ConfigureF s gb = Some s1"
    using err by (cases "ConfigureF s gb") (simp_all add: Configure_def)
  obtain s3 where s3: "ConfigureS (ConfigureL s1 gb) gb = Some s3"
    using err s1 by (cases "ConfigureS (ConfigureL s1 gb) gb") (simp_all add: Configure_def)
  have f3: "frequency s3 = (case paramF gb of Some v \<Rightarrow> v | None \<Rightarrow> frequency s)"
    and l3: "minimumAcceleration s3
               = (case paramL gb of Some v \<Rightarrow> max v 1 | None \<Rightarrow> minimumAcceleration s)"
    and z3: "zeta s3 = (case paramS gb of Some v \<Rightarrow> v | None \<Rightarrow> zeta s)"
    using ConfigureF_Some [OF s1] ConfigureS_Some [OF s3]
    by (simp_all add: ConfigureL_eq split: option.splits)
  show ?thesis
  proof (cases "ConfigureP s3 gb (seenFLS gb)")
    case (Inl msg)
    then have "s' = s3" using err s1 s3 by (simp add: Configure_def)
    then show ?thesis using f3 l3 z3 by simp
  next
    case (Inr p)
    obtain s4 seen where p: "p = (s4, seen)" by (cases p)
    from ConfigureP_Inr [OF Inr [unfolded p]]
    obtain t where s4: "s4 = s3\<lparr>shaperType := t\<rparr>" ..
    have "seen" using err s1 s3 Inr p by (auto simp: Configure_def split: if_splits)
    then have "\<exists>out. SetImpulses s4 gb = Inl out \<and> out = Returned GCodeResult_error r s'"
      using err s1 s3 Inr p by (auto simp: Configure_def split: sum.splits)
    then have "frequency s' = frequency s4 \<and> zeta s' = zeta s4
        \<and> minimumAcceleration s' = minimumAcceleration s4"
      by (auto dest!: SetImpulses_Inl)
    then show ?thesis using f3 l3 z3 s4 by simp
  qed
qed

lemma unknown_type_run:
  "Configure (AxisShaper_new 40 0.1 10) (M593 (Some 50) (Some 0.5) (Some 0.2) (Some ''foo''))
     = Returned GCodeResult_error
         (ReplyText (''Unsupported input shaper type '' @ [CHR 0x27] @ ''foo'' @ [CHR 0x27]))
         ((AxisShaper_new 40 0.1 10)\<lparr>frequency := 50, minimumAcceleration := 1, zeta := 0.2\<rparr>)"
  by (simp add: Configure_def ConfigureF_def ConfigureL_def ConfigureS_def ConfigureP_def
        GetLimitedFValue_def MinimumInputShapingFrequency_def MaximumInputShapingFrequency_def
        StepClockRate_def M593_def name_unknown)

theorem C10_error_keeps_parameters_witness:
  "Configure (AxisShaper_new 40 0.1 10) (M593 (Some 50) (Some 0.5) (Some 0.2) (Some ''foo''))
     = Returned GCodeResult_error
         (ReplyText (''Unsupported input shaper type '' @ [CHR 0x27] @ ''foo'' @ [CHR 0x27]))
         ((AxisShaper_new 40 0.1 10)\<lparr>frequency := 50, minimumAcceleration := 1, zeta := 0.2\<rparr>)
   \<and> frequency (AxisShaper_new 40 0.1 10) = 40
   \<and> frequency ((AxisShaper_new 40 0.1 10)\<lparr>frequency := 50, minimumAcceleration := 1, zeta := 0.2\<rparr>) = 50
   \<and> minimumAcceleration ((AxisShaper_new 40 0.1 10)\<lparr>frequency := 50, minimumAcceleration := 1, zeta := 0.2\<rparr>) = 1
   \<and> zeta ((AxisShaper_new 40 0.1 10)\<lparr>frequency := 50, minimumAcceleration := 1, zeta := 0.2\<rparr>) = 0.2"
  using C10_error_keeps_parameters [OF unknown_type_run] unknown_type_run
  by (simp add: M593_def AxisShaper_new_def)

section \<open>Properties of PlanShaping\<close>

lemmas Plan_defs =
  PlanShaping_def PlanImpulses_def ProposePlan_def ShapeAcceleration_def ShapeDeceleration_def
  extraAccelDistance_def extraDecelDistance_def GetExtraAccelStartDistance_def
  GetExtraAccelEndDistance_def GetExtraDecelStartDistance_def GetExtraDecelEndDistance_def
  trapezoid_def trapezoidParams_def prevAllowsShaping_def nextAllowsShaping_def
  StepClockRate_def fsquare_def Let_def

lemmas Daa_defs =
  DaaAdjust_def DaaBlock_def DaaReshape_def DaaProposeAcceleration_def
  DaaProposeDeceleration_def DaaProposedTopSpeed_def DaaTriangleAcceleration_def
  DaaTriangleDeceleration_def DaaAccelOnlyAcceleration_def DaaDecelOnlyDeceleration_def
  fl_quot_def trapezoid_def prevAllowsShaping_def nextAllowsShaping_def fsquare_def Let_def

lemma sqrt_damped: "sqrt (576 / 625) = 24 / 25"
  by (rule real_sqrt_unique) (simp_all add: power2_eq_square)

lemma daa32_eq:
  "daa32 = \<lparr>numExtraImpulses = 0, frequency = 32, zeta = 0,
        minimumAcceleration = 10, shaperType = daa,
        coefficients = [0, 0, 0, 0], durations = [1 / 32, 0, 0, 0],
        totalDuration = 0, totalShapingClocks = 0, clocksLostAtStart = 0,
        clocksLostAtEnd = 0,
        overlappedCoefficients =
          [Finite 0, Finite 0, Finite 0, Finite 0, Finite 0, Finite 0, Finite 0, Finite 0],
        overlappedAverageAcceleration = NaN\<rparr>"
  by (simp add: daa32_def Configure_defs InputShaperType_of_name.simps eval_nat_numeral)

lemma ei2damped_eq:
  "ei2damped = \<lparr>numExtraImpulses = 3, frequency = 50, zeta = 7 / 25,
        minimumAcceleration = 10, shaperType = ei2,
        coefficients =
          [6574677 / 12500000, 51693493 / 62500000, 1486029473 / 1562500000, 0],
        durations =
          [99559129 / 7500000000, 24326129 / 2500000000, 121086989 / 15000000000, 0],
        totalDuration = 43134379 / 1875000000,
        totalShapingClocks = 43134379 / 2500,
        clocksLostAtStart = 233640089661409 / 39062500000,
        clocksLostAtEnd = 440334582213591 / 39062500000,
        overlappedCoefficients =
          [PlusInf, PlusInf, PlusInf, PlusInf, PlusInf, PlusInf, Finite 0, Finite 0],
        overlappedAverageAcceleration = PlusInf\<rparr>"
  by (simp add: ei2damped_def Configure_defs InputShaperType_of_name.simps eval_nat_numeral
        sqrt_damped)

subsection \<open>The impulse shapers\<close>

text \<open>Each check keeps its two flags or clears both, and leaves the other two alone.\<close>

lemma ShapeAcceleration_flags:
  "fst (ShapeAcceleration s dda (plan, params)) = plan
   \<or> fst (ShapeAcceleration s dda (plan, params))
       = plan\<lparr>shapeAccelStart := False, shapeAccelEnd := False\<rparr>"
  by (simp add: ShapeAcceleration_def Let_def)

lemma ShapeDeceleration_flags:
  "fst (ShapeDeceleration s dda (plan, params)) = plan
   \<or> fst (ShapeDeceleration s dda (plan, params))
       = plan\<lparr>shapeDecelStart := False, shapeDecelEnd := False\<rparr>"
  by (simp add: ShapeDeceleration_def Let_def)

lemma PlanImpulses_flags:
  fixes s dda params
  defines "P \<equiv> ProposePlan s dda params"
  defines "Q \<equiv> fst (PlanImpulses s dda params)"
  shows "(shapeAccelStart Q = shapeAccelStart P \<and> shapeAccelEnd Q = shapeAccelEnd P
          \<or> \<not> shapeAccelStart Q \<and> \<not> shapeAccelEnd Q)
       \<and> (shapeDecelStart Q = shapeDecelStart P \<and> shapeDecelEnd Q = shapeDecelEnd P
          \<or> \<not> shapeDecelStart Q \<and> \<not> shapeDecelEnd Q)"
proof -
  obtain plan1 params1 where a: "ShapeAcceleration s dda (P, params) = (plan1, params1)"
    by (cases "ShapeAcceleration s dda (P, params)")
  have Q: "Q = fst (ShapeDeceleration s dda (plan1, params1))"
    by (simp add: Q_def PlanImpulses_def a [unfolded P_def])
  have 1: "plan1 = P \<or> plan1 = P\<lparr>shapeAccelStart := False, shapeAccelEnd := False\<rparr>"
    using ShapeAcceleration_flags [of s dda P params] by (simp add: a)
  have 2: "Q = plan1 \<or> Q = plan1\<lparr>shapeDecelStart := False, shapeDecelEnd := False\<rparr>"
    using ShapeDeceleration_flags [of s dda plan1 params1] by (simp add: Q)
  from 1 2 show ?thesis by auto
qed

text \<open>For the four impulse shapers \<^verbatim>\<open>PlanShaping\<close> plans as \<open>PlanImpulses\<close> does.\<close>

lemma PlanShaping_impulses:
  assumes "shaperType s = zvd \<or> shaperType s = zvdd \<or> shaperType s = ei2 \<or> shaperType s = ei3"
  shows "PlanShaping SetFromDDA s dda params True
           = (fst (PlanImpulses s dda (SetFromDDA dda)), dda,
              snd (PlanImpulses s dda (SetFromDDA dda)))"
  using assms by (auto simp: PlanShaping_def Let_def split: prod.splits)

text \<open>
  For a move with equal clock counts between idle neighbours the proposal pairs the
  flags by kind, start with start and end with end, whatever the shaper.
\<close>

lemma ProposePlan_by_kind:
  assumes "accelClocks params = decelClocks params"
    and "prevAllowsShaping dda" and "nextAllowsShaping dda"
  shows "shapeDecelStart (ProposePlan s dda params)
           = (shapeAccelStart (ProposePlan s dda params)
              \<and> decelStartDistance params > accelDistance params)
       \<and> shapeAccelEnd (ProposePlan s dda params)
           = (shapeDecelEnd (ProposePlan s dda params)
              \<and> decelStartDistance params > accelDistance params)"
  using assms by (simp add: ProposePlan_def)

text \<open>
  C2, as amended. The claim: for a symmetric move between idle neighbours the planned
  flags mirror each other, \<open>shapeAccelStart = shapeDecelEnd\<close> and
  \<open>shapeAccelEnd = shapeDecelStart\<close>. Two things in the planner stand against it. The
  proposal tests the length of a phase with \<^verbatim>\<open>clocksLostAtStart\<close> for a start flag and
  with \<^verbatim>\<open>clocksLostAtEnd\<close> for an end flag, and the two tests may differ. And the
  deceleration is checked after the acceleration, in what the acceleration has left of
  the steady phase, so that one pair of flags may stand and the other be cleared.
  What holds: for a symmetric move between idle neighbours, planned by one of the four
  impulse shapers, whose acceleration clocks pass both tests against
  \<^verbatim>\<open>totalShapingClocks\<close> or fail both, the proposed plan is mirrored, and so is the plan
  returned when it shapes both phases or neither.
\<close>

theorem C2_symmetric_move:
  assumes "startSpeed dda = endSpeed dda" and "acceleration dda = deceleration dda"
    and clocks: "accelClocks (SetFromDDA dda) = decelClocks (SetFromDDA dda)"
    and prev: "prevState dda \<noteq> DDA_frozen" "prevState dda \<noteq> DDA_executing"
    and nxt: "\<not> (nextState dda = DDA_provisional \<and> nextIsDecelerationMove dda)"
    and ty: "shaperType s = zvd \<or> shaperType s = zvdd \<or> shaperType s = ei2
             \<or> shaperType s = ei3"
    and tests: "(totalShapingClocks s \<le> accelClocks (SetFromDDA dda) + clocksLostAtStart s)
                = (totalShapingClocks s \<le> accelClocks (SetFromDDA dda) + clocksLostAtEnd s)"
  shows "shapeAccelStart (ProposePlan s dda (SetFromDDA dda))
           = shapeDecelEnd (ProposePlan s dda (SetFromDDA dda))
       \<and> shapeAccelEnd (ProposePlan s dda (SetFromDDA dda))
           = shapeDecelStart (ProposePlan s dda (SetFromDDA dda))
       \<and> ((shapeAccelStart (fst (PlanShaping SetFromDDA s dda params True))
             \<or> shapeAccelEnd (fst (PlanShaping SetFromDDA s dda params True)))
           = (shapeDecelStart (fst (PlanShaping SetFromDDA s dda params True))
             \<or> shapeDecelEnd (fst (PlanShaping SetFromDDA s dda params True)))
           \<longrightarrow> shapeAccelStart (fst (PlanShaping SetFromDDA s dda params True))
                 = shapeDecelEnd (fst (PlanShaping SetFromDDA s dda params True))
             \<and> shapeAccelEnd (fst (PlanShaping SetFromDDA s dda params True))
                 = shapeDecelStart (fst (PlanShaping SetFromDDA s dda params True)))"
proof -
  let ?p = "SetFromDDA dda"
  let ?P = "ProposePlan s dda ?p"
  let ?Q = "fst (PlanImpulses s dda ?p)"
  have pa: "prevAllowsShaping dda" using prev by (simp add: prevAllowsShaping_def)
  have na: "nextAllowsShaping dda" using nxt by (auto simp: nextAllowsShaping_def)
  have C: "shapeAccelStart ?P = shapeDecelEnd ?P \<and> shapeAccelEnd ?P = shapeDecelStart ?P"
    using pa na clocks tests by (simp add: ProposePlan_def)
  have Q: "fst (PlanShaping SetFromDDA s dda params True) = ?Q"
    by (simp add: PlanShaping_impulses [OF ty])
  have D: "shapeAccelStart ?Q = shapeDecelEnd ?Q \<and> shapeAccelEnd ?Q = shapeDecelStart ?Q"
    if "(shapeAccelStart ?Q \<or> shapeAccelEnd ?Q) = (shapeDecelStart ?Q \<or> shapeDecelEnd ?Q)"
    using PlanImpulses_flags [of s dda ?p] C ProposePlan_by_kind [OF clocks pa na, of s] that
    by blast
  from C D show ?thesis unfolding Q by blast
qed

text \<open>
  \<^verbatim>\<open>M593 P"zvd" F40 S0\<close>; from rest to 100 mm/s and back to rest at 1000 mm/s/s over
  20 mm, between idle neighbours. Each phase lasts 75000 clocks and passes both tests;
  all four flags are proposed and all four stand.
\<close>

theorem C2_symmetric_move_witness:
  "startSpeed (trapezoid 0 100 0 1000 1000 20) = endSpeed (trapezoid 0 100 0 1000 1000 20)
   \<and> acceleration (trapezoid 0 100 0 1000 1000 20) = deceleration (trapezoid 0 100 0 1000 1000 20)
   \<and> trapezoidParams (trapezoid 0 100 0 1000 1000 20)
       = \<lparr>accelDistance = 5, decelStartDistance = 15,
          accelClocks = 75000, decelClocks = 75000\<rparr>
   \<and> prevState (trapezoid 0 100 0 1000 1000 20) = DDA_completed
   \<and> nextIsDecelerationMove (trapezoid 0 100 0 1000 1000 20) = False
   \<and> shaperType zvd40 = zvd
   \<and> totalShapingClocks zvd40 \<le> 75000 + clocksLostAtStart zvd40
   \<and> totalShapingClocks zvd40 \<le> 75000 + clocksLostAtEnd zvd40
   \<and> ProposePlan zvd40 (trapezoid 0 100 0 1000 1000 20)
        (trapezoidParams (trapezoid 0 100 0 1000 1000 20))
       = \<lparr>shapeAccelStart = True, shapeAccelEnd = True,
          shapeDecelStart = True, shapeDecelEnd = True\<rparr>
   \<and> fst (PlanShaping trapezoidParams zvd40 (trapezoid 0 100 0 1000 1000 20)
            \<lparr>accelDistance = 0, decelStartDistance = 0, accelClocks = 0, decelClocks = 0\<rparr>
            True)
       = \<lparr>shapeAccelStart = True, shapeAccelEnd = True,
          shapeDecelStart = True, shapeDecelEnd = True\<rparr>"
  using C2_symmetric_move [of "trapezoid 0 100 0 1000 1000 20" trapezoidParams zvd40
          "\<lparr>accelDistance = 0, decelStartDistance = 0, accelClocks = 0, decelClocks = 0\<rparr>"]
  by (simp add: Plan_defs zvd40_eq eval_nat_numeral)

text \<open>
  The claim C2 as it stands fails, twice, between idle neighbours and from rest to
  100 mm/s and back to rest.

  \<^verbatim>\<open>M593 P"zvd" F40 S0\<close>, 1000 mm/s/s, over 12 mm. Each phase lasts 75000 clocks, all
  four flags are proposed, and the extra distances are 5/128 mm and 155/128 mm for the
  acceleration and as much for the deceleration. The steady phase is 2 mm long: the
  acceleration takes 1.25 mm of it and is shaped, the deceleration finds 0.75 mm and is
  not. Nothing here rests on the bound of the loop of line 200: with the sums over both
  durations instead (18750 clocks in all, 9375 lost at either end) the four flags are
  proposed as well, 75000 clocks are not below twice 18750, and the distances are the
  same.

  \<^verbatim>\<open>M593 P"ei2" F50 S0.28\<close>, 10000 mm/s/s, over 20 mm. Each phase lasts 7500 clocks.
  With the 5981.2 clocks lost at the start that is below the 17253.8 of
  \<^verbatim>\<open>totalShapingClocks\<close>, with the 11272.6 lost at the end it is not: the ends are
  shaped and the starts are not. With the sums over all three durations the test
  fails for the start and holds for the end as well.
\<close>

theorem C2_symmetry_counterexample:
  "startSpeed (trapezoid 0 100 0 1000 1000 12) = endSpeed (trapezoid 0 100 0 1000 1000 12)
   \<and> acceleration (trapezoid 0 100 0 1000 1000 12) = deceleration (trapezoid 0 100 0 1000 1000 12)
   \<and> prevState (trapezoid 0 100 0 1000 1000 12) = DDA_completed
   \<and> nextIsDecelerationMove (trapezoid 0 100 0 1000 1000 12) = False
   \<and> trapezoidParams (trapezoid 0 100 0 1000 1000 12)
       = \<lparr>accelDistance = 5, decelStartDistance = 7,
          accelClocks = 75000, decelClocks = 75000\<rparr>
   \<and> shaperType zvd40 = zvd
   \<and> GetExtraAccelStartDistance zvd40 (trapezoid 0 100 0 1000 1000 12) = 5 / 128
   \<and> GetExtraAccelEndDistance zvd40 (trapezoid 0 100 0 1000 1000 12) = 155 / 128
   \<and> GetExtraDecelStartDistance zvd40 (trapezoid 0 100 0 1000 1000 12) = 155 / 128
   \<and> GetExtraDecelEndDistance zvd40 (trapezoid 0 100 0 1000 1000 12) = 5 / 128
   \<and> ProposePlan zvd40 (trapezoid 0 100 0 1000 1000 12)
        (trapezoidParams (trapezoid 0 100 0 1000 1000 12))
       = \<lparr>shapeAccelStart = True, shapeAccelEnd = True,
          shapeDecelStart = True, shapeDecelEnd = True\<rparr>
   \<and> PlanShaping trapezoidParams zvd40 (trapezoid 0 100 0 1000 1000 12)
        \<lparr>accelDistance = 0, decelStartDistance = 0, accelClocks = 0, decelClocks = 0\<rparr> True
       = (\<lparr>shapeAccelStart = True, shapeAccelEnd = True,
           shapeDecelStart = False, shapeDecelEnd = False\<rparr>,
          trapezoid 0 100 0 1000 1000 12,
          \<lparr>accelDistance = 25 / 4, decelStartDistance = 7,
           accelClocks = 84375, decelClocks = 75000\<rparr>)
   \<and> shapeAccelStart (fst (PlanShaping trapezoidParams zvd40 (trapezoid 0 100 0 1000 1000 12)
          \<lparr>accelDistance = 0, decelStartDistance = 0, accelClocks = 0, decelClocks = 0\<rparr> True))
       \<noteq> shapeDecelEnd (fst (PlanShaping trapezoidParams zvd40 (trapezoid 0 100 0 1000 1000 12)
          \<lparr>accelDistance = 0, decelStartDistance = 0, accelClocks = 0, decelClocks = 0\<rparr> True))
   \<and> StepClockRate * (\<Sum>i\<leftarrow>[0..<2]. durations zvd40 ! i) = 18750
   \<and> StepClockRate * (\<Sum>i\<leftarrow>[0..<2]. (1 - coefficients zvd40 ! i) * durations zvd40 ! i) = 9375
   \<and> StepClockRate * (\<Sum>i\<leftarrow>[0..<2]. coefficients zvd40 ! i * durations zvd40 ! i) = 9375
   \<and> startSpeed (trapezoid 0 100 0 10000 10000 20) = endSpeed (trapezoid 0 100 0 10000 10000 20)
   \<and> acceleration (trapezoid 0 100 0 10000 10000 20)
       = deceleration (trapezoid 0 100 0 10000 10000 20)
   \<and> trapezoidParams (trapezoid 0 100 0 10000 10000 20)
       = \<lparr>accelDistance = 1 / 2, decelStartDistance = 39 / 2,
          accelClocks = 7500, decelClocks = 7500\<rparr>
   \<and> shaperType ei2damped = ei2
   \<and> 7500 + clocksLostAtStart ei2damped < totalShapingClocks ei2damped
   \<and> totalShapingClocks ei2damped \<le> 7500 + clocksLostAtEnd ei2damped
   \<and> fst (PlanShaping trapezoidParams ei2damped (trapezoid 0 100 0 10000 10000 20)
            \<lparr>accelDistance = 0, decelStartDistance = 0, accelClocks = 0, decelClocks = 0\<rparr>
            True)
       = \<lparr>shapeAccelStart = False, shapeAccelEnd = True,
          shapeDecelStart = False, shapeDecelEnd = True\<rparr>
   \<and> 7500 + StepClockRate
              * (\<Sum>i\<leftarrow>[0..<3]. (1 - coefficients ei2damped ! i) * durations ei2damped ! i)
       < StepClockRate * (\<Sum>i\<leftarrow>[0..<3]. durations ei2damped ! i)
   \<and> StepClockRate * (\<Sum>i\<leftarrow>[0..<3]. durations ei2damped ! i)
       \<le> 7500 + StepClockRate
                  * (\<Sum>i\<leftarrow>[0..<3]. coefficients ei2damped ! i * durations ei2damped ! i)"
  by (simp add: Plan_defs zvd40_eq ei2damped_eq eval_nat_numeral)

subsection \<open>The extra distances in closed form\<close>

text \<open>
  The loops of \<^verbatim>\<open>GetExtraAccelStartDistance\<close> and \<^verbatim>\<open>GetExtraAccelEndDistance\<close> as sums:
  the speed at the start of a segment is the start speed plus the speed gained in the
  segments before it, the speed at the end of a segment is the top speed less the speed
  still to gain in the segments after it.
\<close>

lemma fold_extra_start:
  "fold (\<lambda>seg (extraDistance, u).
            (let segTime = d seg; speedChange = c seg * a * segTime
             in (extraDistance + (1 - c seg) * (u + 0.5 * speedChange) * segTime,
                 u + speedChange)))
        [0..<n] (e0, u0)
   = (e0 + (\<Sum>i<n. (1 - c i) * (u0 + (\<Sum>j<i. c j * a * d j) + 0.5 * (c i * a * d i)) * d i),
      u0 + (\<Sum>i<n. c i * a * (d i :: real)))"
  by (induction n) (simp_all add: Let_def algebra_simps)

lemma sum_above_Suc:
  assumes "i < n"
  shows "(\<Sum>j\<in>{i<..<Suc n}. f j) = (\<Sum>j\<in>{i<..<n}. f j) + (f n :: real)"
proof -
  have "{i<..<Suc n} = insert n {i<..<n}" using assms by auto
  then show ?thesis by simp
qed

lemma fold_extra_end:
  "fold (\<lambda>seg (extraDistance, v).
            (let segTime = d seg; speedChange = (1 - c seg) * a * segTime
             in (extraDistance + c seg * (v - 0.5 * speedChange) * segTime,
                 v - speedChange)))
        (rev [0..<n]) (e0, v0)
   = (e0 + (\<Sum>i<n. c i * (v0 - (\<Sum>j\<in>{i<..<n}. (1 - c j) * a * d j)
                             - 0.5 * ((1 - c i) * a * d i)) * d i),
      v0 - (\<Sum>i<n. (1 - c i) * a * (d i :: real)))"
  (is "fold ?g _ _ = _")
proof (induction n arbitrary: e0 v0)
  case 0
  then show ?case by simp
next
  case (Suc n)
  let ?w = "(1 - c n) * a * d n"
  have step: "?g n (e0, v0) = (e0 + c n * (v0 - 0.5 * ?w) * d n, v0 - ?w)"
    by (simp add: Let_def)
  have inner: "(\<Sum>i<n. c i * (v0 - ?w - (\<Sum>j\<in>{i<..<n}. (1 - c j) * a * d j)
                             - 0.5 * ((1 - c i) * a * d i)) * d i)
      = (\<Sum>i<n. c i * (v0 - (\<Sum>j\<in>{i<..<Suc n}. (1 - c j) * a * d j)
                             - 0.5 * ((1 - c i) * a * d i)) * d i)"
    by (rule sum.cong) (simp_all add: sum_above_Suc algebra_simps)
  have "fold ?g (rev [0..<Suc n]) (e0, v0) = fold ?g (rev [0..<n]) (?g n (e0, v0))"
    by simp
  also have "\<dots> = fold ?g (rev [0..<n]) (e0 + c n * (v0 - 0.5 * ?w) * d n, v0 - ?w)"
    by (simp only: step)
  also have "\<dots> = (e0 + c n * (v0 - 0.5 * ?w) * d n
                    + (\<Sum>i<n. c i * (v0 - ?w - (\<Sum>j\<in>{i<..<n}. (1 - c j) * a * d j)
                             - 0.5 * ((1 - c i) * a * d i)) * d i),
                  v0 - ?w - (\<Sum>i<n. (1 - c i) * a * d i))"
    by (rule Suc.IH)
  also have "\<dots> = (e0 + (\<Sum>i<Suc n. c i * (v0 - (\<Sum>j\<in>{i<..<Suc n}. (1 - c j) * a * d j)
                             - 0.5 * ((1 - c i) * a * d i)) * d i),
                  v0 - (\<Sum>i<Suc n. (1 - c i) * a * d i))"
  proof -
    have "{n<..<Suc n} = {}" by auto
    with inner show ?thesis by simp
  qed
  finally show ?case .
qed

lemma GetExtraAccelStartDistance_closed:
  "GetExtraAccelStartDistance s dda
     = (\<Sum>i<numExtraImpulses s.
          (1 - coefficients s ! i)
          * (startSpeed dda + (\<Sum>j<i. coefficients s ! j * acceleration dda * durations s ! j)
             + 0.5 * (coefficients s ! i * acceleration dda * durations s ! i))
          * durations s ! i)"
  unfolding GetExtraAccelStartDistance_def
  by (subst fold_extra_start) simp

lemma GetExtraAccelEndDistance_closed:
  "GetExtraAccelEndDistance s dda
     = (\<Sum>i<numExtraImpulses s.
          coefficients s ! i
          * (topSpeed dda
             - (\<Sum>j\<in>{i<..<numExtraImpulses s}.
                  (1 - coefficients s ! j) * acceleration dda * durations s ! j)
             - 0.5 * ((1 - coefficients s ! i) * acceleration dda * durations s ! i))
          * durations s ! i)"
  unfolding GetExtraAccelEndDistance_def
  by (subst fold_extra_end) simp

text \<open>
  C7. The check of the acceleration, from a plan and the parameters. With both flags
  proposed and \<^verbatim>\<open>accelClocks < 2 * totalShapingClocks\<close>, both flags are cleared and the
  parameters keep their values. Otherwise, with \<^verbatim>\<open>extraAccelDistance\<close> the sum of the
  extra start and end distances of the flags proposed: if
  \<^verbatim>\<open>accelDistance + extraAccelDistance <= decelStartDistance\<close> the plan stands,
  \<^verbatim>\<open>accelDistance\<close> grows by \<^verbatim>\<open>extraAccelDistance\<close> and \<^verbatim>\<open>accelClocks\<close> by
  \<^verbatim>\<open>clocksLostAtStart\<close> and \<^verbatim>\<open>clocksLostAtEnd\<close>, each for its flag; else both flags are
  cleared and the parameters keep their values. The extra distances are the closed forms:
  for the start the sum over the impulses of \<open>(1 - c\<^sub>i) (u\<^sub>i + c\<^sub>i a d\<^sub>i / 2) d\<^sub>i\<close>, with
  \<open>u\<^sub>i\<close> the start speed plus the \<open>c\<^sub>j a d\<^sub>j\<close> of the impulses before; for the end the sum
  of \<open>c\<^sub>i (v\<^sub>i - (1 - c\<^sub>i) a d\<^sub>i / 2) d\<^sub>i\<close>, with \<open>v\<^sub>i\<close> the top speed less the
  \<open>(1 - c\<^sub>j) a d\<^sub>j\<close> of the impulses after.
\<close>

theorem C7_accel_feasibility:
  "(shapeAccelStart plan \<and> shapeAccelEnd plan
      \<and> accelClocks params < 2 * totalShapingClocks s \<longrightarrow>
      ShapeAcceleration s dda (plan, params)
        = (plan\<lparr>shapeAccelStart := False, shapeAccelEnd := False\<rparr>, params))
 \<and> (\<not> (shapeAccelStart plan \<and> shapeAccelEnd plan
          \<and> accelClocks params < 2 * totalShapingClocks s)
      \<and> accelDistance params + extraAccelDistance s dda plan \<le> decelStartDistance params \<longrightarrow>
      ShapeAcceleration s dda (plan, params)
        = (plan, params\<lparr>accelDistance := accelDistance params + extraAccelDistance s dda plan,
                         accelClocks := accelClocks params
                            + (if shapeAccelStart plan then clocksLostAtStart s else 0)
                            + (if shapeAccelEnd plan then clocksLostAtEnd s else 0)\<rparr>))
 \<and> (\<not> (shapeAccelStart plan \<and> shapeAccelEnd plan
          \<and> accelClocks params < 2 * totalShapingClocks s)
      \<and> \<not> accelDistance params + extraAccelDistance s dda plan \<le> decelStartDistance params \<longrightarrow>
      ShapeAcceleration s dda (plan, params)
        = (plan\<lparr>shapeAccelStart := False, shapeAccelEnd := False\<rparr>, params))
 \<and> extraAccelDistance s dda plan
      = (if shapeAccelStart plan
         then (\<Sum>i<numExtraImpulses s.
                 (1 - coefficients s ! i)
                 * (startSpeed dda
                    + (\<Sum>j<i. coefficients s ! j * acceleration dda * durations s ! j)
                    + 0.5 * (coefficients s ! i * acceleration dda * durations s ! i))
                 * durations s ! i)
         else 0)
        + (if shapeAccelEnd plan
           then (\<Sum>i<numExtraImpulses s.
                   coefficients s ! i
                   * (topSpeed dda
                      - (\<Sum>j\<in>{i<..<numExtraImpulses s}.
                           (1 - coefficients s ! j) * acceleration dda * durations s ! j)
                      - 0.5 * ((1 - coefficients s ! i) * acceleration dda * durations s ! i))
                   * durations s ! i)
           else 0)"
proof -
  have "extraAccelDistance s dda plan
      = (if shapeAccelStart plan then GetExtraAccelStartDistance s dda else 0)
        + (if shapeAccelEnd plan then GetExtraAccelEndDistance s dda else 0)"
    by (simp add: extraAccelDistance_def Let_def)
  then have closed: "extraAccelDistance s dda plan
      = (if shapeAccelStart plan
         then (\<Sum>i<numExtraImpulses s.
                 (1 - coefficients s ! i)
                 * (startSpeed dda
                    + (\<Sum>j<i. coefficients s ! j * acceleration dda * durations s ! j)
                    + 0.5 * (coefficients s ! i * acceleration dda * durations s ! i))
                 * durations s ! i)
         else 0)
        + (if shapeAccelEnd plan
           then (\<Sum>i<numExtraImpulses s.
                   coefficients s ! i
                   * (topSpeed dda
                      - (\<Sum>j\<in>{i<..<numExtraImpulses s}.
                           (1 - coefficients s ! j) * acceleration dda * durations s ! j)
                      - 0.5 * ((1 - coefficients s ! i) * acceleration dda * durations s ! i))
                   * durations s ! i)
           else 0)"
    by (simp only: GetExtraAccelStartDistance_closed GetExtraAccelEndDistance_closed)
  have steps: "(shapeAccelStart plan \<and> shapeAccelEnd plan
      \<and> accelClocks params < 2 * totalShapingClocks s \<longrightarrow>
      ShapeAcceleration s dda (plan, params)
        = (plan\<lparr>shapeAccelStart := False, shapeAccelEnd := False\<rparr>, params))
 \<and> (\<not> (shapeAccelStart plan \<and> shapeAccelEnd plan
          \<and> accelClocks params < 2 * totalShapingClocks s)
      \<and> accelDistance params + extraAccelDistance s dda plan \<le> decelStartDistance params \<longrightarrow>
      ShapeAcceleration s dda (plan, params)
        = (plan, params\<lparr>accelDistance := accelDistance params + extraAccelDistance s dda plan,
                         accelClocks := accelClocks params
                            + (if shapeAccelStart plan then clocksLostAtStart s else 0)
                            + (if shapeAccelEnd plan then clocksLostAtEnd s else 0)\<rparr>))
 \<and> (\<not> (shapeAccelStart plan \<and> shapeAccelEnd plan
          \<and> accelClocks params < 2 * totalShapingClocks s)
      \<and> \<not> accelDistance params + extraAccelDistance s dda plan \<le> decelStartDistance params \<longrightarrow>
      ShapeAcceleration s dda (plan, params)
        = (plan\<lparr>shapeAccelStart := False, shapeAccelEnd := False\<rparr>, params))"
    by (cases plan; cases params) (simp add: ShapeAcceleration_def extraAccelDistance_def Let_def)
  from steps closed show ?thesis by blast
qed

text \<open>
  With \<^verbatim>\<open>M593 P"zvd" F40 S0\<close> and a move from rest to 100 mm/s. At 4000 mm/s/s the
  phase lasts 18750 clocks, twice \<^verbatim>\<open>totalShapingClocks\<close>; both flags stand, the extra
  distances are 5/32 mm at the start and 35/32 mm at the end, the distance grows from
  1.25 mm to 2.5 mm and the clocks to 28125. At 7500 mm/s/s the phase lasts 10000
  clocks and both flags are cleared. At 20000 mm/s/s only the start is proposed; it
  stands over 20 mm (extra distance 25/32 mm) and is cleared over 1 mm.
\<close>

theorem C7_accel_feasibility_witness:
  "GetExtraAccelStartDistance zvd40 (trapezoid 0 100 0 4000 4000 20) = 5 / 32
   \<and> GetExtraAccelEndDistance zvd40 (trapezoid 0 100 0 4000 4000 20) = 35 / 32
   \<and> ShapeAcceleration zvd40 (trapezoid 0 100 0 4000 4000 20)
      (\<lparr>shapeAccelStart = True, shapeAccelEnd = True,
        shapeDecelStart = True, shapeDecelEnd = True\<rparr>,
       \<lparr>accelDistance = 5 / 4, decelStartDistance = 75 / 4,
        accelClocks = 18750, decelClocks = 18750\<rparr>)
     = (\<lparr>shapeAccelStart = True, shapeAccelEnd = True,
         shapeDecelStart = True, shapeDecelEnd = True\<rparr>,
        \<lparr>accelDistance = 5 / 2, decelStartDistance = 75 / 4,
         accelClocks = 28125, decelClocks = 18750\<rparr>)
   \<and> ShapeAcceleration zvd40 (trapezoid 0 100 0 7500 7500 20)
      (\<lparr>shapeAccelStart = True, shapeAccelEnd = True,
        shapeDecelStart = True, shapeDecelEnd = True\<rparr>,
       \<lparr>accelDistance = 2 / 3, decelStartDistance = 58 / 3,
        accelClocks = 10000, decelClocks = 10000\<rparr>)
     = (\<lparr>shapeAccelStart = False, shapeAccelEnd = False,
         shapeDecelStart = True, shapeDecelEnd = True\<rparr>,
        \<lparr>accelDistance = 2 / 3, decelStartDistance = 58 / 3,
         accelClocks = 10000, decelClocks = 10000\<rparr>)
   \<and> ShapeAcceleration zvd40 (trapezoid 0 100 0 20000 20000 20)
      (\<lparr>shapeAccelStart = True, shapeAccelEnd = False,
        shapeDecelStart = True, shapeDecelEnd = False\<rparr>,
       \<lparr>accelDistance = 1 / 4, decelStartDistance = 79 / 4,
        accelClocks = 3750, decelClocks = 3750\<rparr>)
     = (\<lparr>shapeAccelStart = True, shapeAccelEnd = False,
         shapeDecelStart = True, shapeDecelEnd = False\<rparr>,
        \<lparr>accelDistance = 1 / 4 + 25 / 32, decelStartDistance = 79 / 4,
         accelClocks = 3750 + 28125 / 4, decelClocks = 3750\<rparr>)
   \<and> ShapeAcceleration zvd40 (trapezoid 0 100 0 20000 20000 1)
      (\<lparr>shapeAccelStart = True, shapeAccelEnd = False,
        shapeDecelStart = True, shapeDecelEnd = False\<rparr>,
       \<lparr>accelDistance = 1 / 4, decelStartDistance = 3 / 4,
        accelClocks = 3750, decelClocks = 3750\<rparr>)
     = (\<lparr>shapeAccelStart = False, shapeAccelEnd = False,
         shapeDecelStart = True, shapeDecelEnd = False\<rparr>,
        \<lparr>accelDistance = 1 / 4, decelStartDistance = 3 / 4,
         accelClocks = 3750, decelClocks = 3750\<rparr>)"
  using C7_accel_feasibility [of
          "\<lparr>shapeAccelStart = True, shapeAccelEnd = True,
            shapeDecelStart = True, shapeDecelEnd = True\<rparr>"
          "\<lparr>accelDistance = 5 / 4, decelStartDistance = 75 / 4,
            accelClocks = 18750, decelClocks = 18750\<rparr>"
          zvd40 "trapezoid 0 100 0 4000 4000 20"]
        C7_accel_feasibility [of
          "\<lparr>shapeAccelStart = True, shapeAccelEnd = True,
            shapeDecelStart = True, shapeDecelEnd = True\<rparr>"
          "\<lparr>accelDistance = 2 / 3, decelStartDistance = 58 / 3,
            accelClocks = 10000, decelClocks = 10000\<rparr>"
          zvd40 "trapezoid 0 100 0 7500 7500 20"]
        C7_accel_feasibility [of
          "\<lparr>shapeAccelStart = True, shapeAccelEnd = False,
            shapeDecelStart = True, shapeDecelEnd = False\<rparr>"
          "\<lparr>accelDistance = 1 / 4, decelStartDistance = 79 / 4,
            accelClocks = 3750, decelClocks = 3750\<rparr>"
          zvd40 "trapezoid 0 100 0 20000 20000 20"]
        C7_accel_feasibility [of
          "\<lparr>shapeAccelStart = True, shapeAccelEnd = False,
            shapeDecelStart = True, shapeDecelEnd = False\<rparr>"
          "\<lparr>accelDistance = 1 / 4, decelStartDistance = 3 / 4,
            accelClocks = 3750, decelClocks = 3750\<rparr>"
          zvd40 "trapezoid 0 100 0 20000 20000 1"]
  by (simp add: Plan_defs zvd40_eq eval_nat_numeral)

subsection \<open>Dynamic acceleration adjustment\<close>

text \<open>
  With a period that is not zero the deceleration distance proposed is a number or a
  NaN, never an infinity; so where the test of line 322 holds it is a number.
\<close>

lemma DaaProposeDeceleration_distance:
  assumes "durations s ! 0 \<noteq> 0"
  shows "snd (snd (DaaProposeDeceleration s dda)) = NaN
       \<or> (\<exists>x. snd (snd (DaaProposeDeceleration s dda)) = Finite x)"
  using assms
  by (auto simp: DaaProposeDeceleration_def Let_def fl_quot_def fsquare_def)

lemma DaaProposeDeceleration_top_speed:
  assumes "0 < durations s ! 0" and "0 < deceleration dda"
    and "nextAllowsShaping dda" and "topSpeed dda = endSpeed dda"
  shows "DaaProposeDeceleration s dda = (True, 0, NaN)"
  using assms by (simp add: DaaProposeDeceleration_def Let_def fl_quot_def)

lemma DaaReshape_floor:
  assumes "DaaReshape s dda = Some dda1"
  shows "(acceleration dda1 = acceleration dda \<or> minimumAcceleration s \<le> acceleration dda1)
       \<and> (deceleration dda1 = deceleration dda \<or> minimumAcceleration s \<le> deceleration dda1)"
  using assms by (auto simp: DaaReshape_def Let_def split: if_splits)

lemma DaaBlock_floor:
  assumes "DaaBlock s dda = Some dda1"
  shows "(acceleration dda1 = acceleration dda \<or> minimumAcceleration s \<le> acceleration dda1)
       \<and> (deceleration dda1 = deceleration dda \<or> minimumAcceleration s \<le> deceleration dda1)"
proof -
  obtain adjA pa pad where A: "DaaProposeAcceleration s dda = (adjA, pa, pad)"
    by (cases "DaaProposeAcceleration s dda")
  obtain adjD pd pdd where D: "DaaProposeDeceleration s dda = (adjD, pd, pdd)"
    by (cases "DaaProposeDeceleration s dda")
  show ?thesis
    using assms DaaReshape_floor [of s dda dda1]
    by (auto simp: DaaBlock_def A D split: if_splits)
qed

text \<open>
  C8. For a move with positive acceleration, deceleration and total distance and a
  shaper with a positive period: whatever the adjustment does, an acceleration or a
  deceleration it changes is at least \<^verbatim>\<open>minimumAcceleration\<close>. And a proposal below it
  is a \<^verbatim>\<open>break\<close>, which leaves the move as it came, on each path: the two proposals
  that fit in the move; the accelerate-decelerate move; the accelerate-only move; the
  decelerate-only move (the last three are what the block does when the proposals do
  not fit). \<^verbatim>\<open>PlanShaping\<close> returns the move so adjusted.
\<close>

theorem C8_daa_minimum_acceleration:
  assumes "0 < durations s ! 0" and "0 < acceleration dda" and "0 < deceleration dda"
    and "0 < totalDistance dda"
  shows
   "(acceleration (DaaAdjust s dda) \<noteq> acceleration dda
      \<longrightarrow> minimumAcceleration s \<le> acceleration (DaaAdjust s dda))
 \<and> (deceleration (DaaAdjust s dda) \<noteq> deceleration dda
      \<longrightarrow> minimumAcceleration s \<le> deceleration (DaaAdjust s dda))
 \<and> (DaaBlock s dda = None \<longrightarrow> DaaAdjust s dda = dda)
 \<and> (shaperType s = daa \<longrightarrow>
       fst (snd (PlanShaping SetFromDDA s dda params True)) = DaaAdjust s dda)
 \<and> ((fst (DaaProposeAcceleration s dda) \<or> fst (DaaProposeDeceleration s dda))
      \<and> fl_le (fl_plus (snd (snd (DaaProposeDeceleration s dda)))
                        (snd (snd (DaaProposeAcceleration s dda))))
               (totalDistance dda)
      \<and> (fst (snd (DaaProposeAcceleration s dda)) < minimumAcceleration s
          \<or> fst (snd (DaaProposeDeceleration s dda)) < minimumAcceleration s)
      \<longrightarrow> DaaBlock s dda = None)
 \<and> ((fst (DaaProposeAcceleration s dda) \<or> fst (DaaProposeDeceleration s dda))
      \<and> \<not> fl_le (fl_plus (snd (snd (DaaProposeDeceleration s dda)))
                          (snd (snd (DaaProposeAcceleration s dda))))
                 (totalDistance dda)
      \<longrightarrow> DaaBlock s dda = DaaReshape s dda)
 \<and> (DaaProposedTopSpeed s dda > startSpeed dda \<and> DaaProposedTopSpeed s dda > endSpeed dda
      \<and> (DaaTriangleAcceleration s dda < minimumAcceleration s
          \<or> DaaTriangleDeceleration s dda < minimumAcceleration s)
      \<longrightarrow> DaaReshape s dda = None)
 \<and> (\<not> (DaaProposedTopSpeed s dda > startSpeed dda \<and> DaaProposedTopSpeed s dda > endSpeed dda)
      \<and> startSpeed dda < endSpeed dda
      \<and> DaaAccelOnlyAcceleration dda < minimumAcceleration s
      \<longrightarrow> DaaReshape s dda = None)
 \<and> (\<not> (DaaProposedTopSpeed s dda > startSpeed dda \<and> DaaProposedTopSpeed s dda > endSpeed dda)
      \<and> startSpeed dda > endSpeed dda
      \<and> DaaDecelOnlyDeceleration dda < minimumAcceleration s
      \<longrightarrow> DaaReshape s dda = None)"
proof -
  obtain adjA pa pad where A: "DaaProposeAcceleration s dda = (adjA, pa, pad)"
    by (cases "DaaProposeAcceleration s dda")
  obtain adjD pd pdd where D: "DaaProposeDeceleration s dda = (adjD, pd, pdd)"
    by (cases "DaaProposeDeceleration s dda")
  have floor: "(acceleration (DaaAdjust s dda) = acceleration dda
                  \<or> minimumAcceleration s \<le> acceleration (DaaAdjust s dda))
             \<and> (deceleration (DaaAdjust s dda) = deceleration dda
                  \<or> minimumAcceleration s \<le> deceleration (DaaAdjust s dda))"
  proof (cases "DaaBlock s dda")
    case None
    then show ?thesis by (simp add: DaaAdjust_def)
  next
    case (Some dda1)
    with DaaBlock_floor [OF Some] show ?thesis by (simp add: DaaAdjust_def)
  qed
  have 0: "DaaBlock s dda = None \<longrightarrow> DaaAdjust s dda = dda"
    by (simp add: DaaAdjust_def)
  have p: "shaperType s = daa \<longrightarrow>
       fst (snd (PlanShaping SetFromDDA s dda params True)) = DaaAdjust s dda"
    by (simp add: PlanShaping_def SUPPORT_DAA_def DaaAdjust_def Let_def split: option.splits)
  have 1: "(fst (DaaProposeAcceleration s dda) \<or> fst (DaaProposeDeceleration s dda))
      \<and> fl_le (fl_plus (snd (snd (DaaProposeDeceleration s dda)))
                        (snd (snd (DaaProposeAcceleration s dda))))
               (totalDistance dda)
      \<and> (fst (snd (DaaProposeAcceleration s dda)) < minimumAcceleration s
          \<or> fst (snd (DaaProposeDeceleration s dda)) < minimumAcceleration s)
      \<longrightarrow> DaaBlock s dda = None"
    by (auto simp: DaaBlock_def A D)
  have 2: "(fst (DaaProposeAcceleration s dda) \<or> fst (DaaProposeDeceleration s dda))
      \<and> \<not> fl_le (fl_plus (snd (snd (DaaProposeDeceleration s dda)))
                          (snd (snd (DaaProposeAcceleration s dda))))
                 (totalDistance dda)
      \<longrightarrow> DaaBlock s dda = DaaReshape s dda"
    by (auto simp: DaaBlock_def A D)
  have 3: "DaaProposedTopSpeed s dda > startSpeed dda \<and> DaaProposedTopSpeed s dda > endSpeed dda
      \<and> (DaaTriangleAcceleration s dda < minimumAcceleration s
          \<or> DaaTriangleDeceleration s dda < minimumAcceleration s)
      \<longrightarrow> DaaReshape s dda = None"
    by (simp add: DaaReshape_def Let_def)
  have 4: "\<not> (DaaProposedTopSpeed s dda > startSpeed dda \<and> DaaProposedTopSpeed s dda > endSpeed dda)
      \<and> startSpeed dda < endSpeed dda
      \<and> DaaAccelOnlyAcceleration dda < minimumAcceleration s
      \<longrightarrow> DaaReshape s dda = None"
    by (simp add: DaaReshape_def Let_def)
  have 5: "\<not> (DaaProposedTopSpeed s dda > startSpeed dda \<and> DaaProposedTopSpeed s dda > endSpeed dda)
      \<and> startSpeed dda > endSpeed dda
      \<and> DaaDecelOnlyDeceleration dda < minimumAcceleration s
      \<longrightarrow> DaaReshape s dda = None"
    by (auto simp add: DaaReshape_def Let_def)
  from floor 0 p 1 2 3 4 5 show ?thesis by blast
qed

text \<open>
  With \<^verbatim>\<open>M593 P"daa" F40 S0\<close> the period is 25 ms. From rest to 100 mm/s and back at
  3000 mm/s/s: over 20 mm both become 2000 (the floor is 10), and with the floor at
  2500 the move is left; over 4 mm with the floor at 10000 the accelerate-decelerate
  move would take 6400 and the move is left; over 1.5 mm it is taken at 2400. From 10
  to 20 mm/s, or from 20 to 10 mm/s, over 0.5 mm, the one-phase move takes 300, and
  with the floor at 500 the move is left.

  With \<^verbatim>\<open>M593 P"daa" F32 S0\<close>, from rest to 16 mm/s and on at 16 mm/s, over 1 mm at
  4096 mm/s/s: the deceleration proposed is 0 and its distance \<^verbatim>\<open>0/0\<close>, the proposals
  do not fit, and the move becomes an accelerate-decelerate move with top speed 24,
  acceleration 768 and deceleration 256.
\<close>

theorem C8_daa_minimum_acceleration_witness:
  "durations daa40 ! 0 = 1 / 40
   \<and> minimumAcceleration daa40 = 10
   \<and> acceleration (trapezoid 0 100 0 3000 3000 20) = 3000
   \<and> deceleration (trapezoid 0 100 0 3000 3000 20) = 3000
   \<and> totalDistance (trapezoid 0 100 0 3000 3000 20) = 20
   \<and> acceleration (DaaAdjust daa40 (trapezoid 0 100 0 3000 3000 20)) = 2000
   \<and> deceleration (DaaAdjust daa40 (trapezoid 0 100 0 3000 3000 20)) = 2000
   \<and> DaaBlock (daa40\<lparr>minimumAcceleration := 2500\<rparr>) (trapezoid 0 100 0 3000 3000 20) = None
   \<and> DaaTriangleAcceleration daa40 (trapezoid 0 100 0 3000 3000 4) = 6400
   \<and> DaaBlock (daa40\<lparr>minimumAcceleration := 10000\<rparr>) (trapezoid 0 100 0 3000 3000 4) = None
   \<and> acceleration (DaaAdjust daa40 (trapezoid 0 100 0 3000 3000 (3 / 2))) = 2400
   \<and> acceleration (DaaAdjust daa40 (trapezoid 10 100 20 3000 3000 (1 / 2))) = 300
   \<and> DaaBlock (daa40\<lparr>minimumAcceleration := 500\<rparr>) (trapezoid 10 100 20 3000 3000 (1 / 2))
       = None
   \<and> deceleration (DaaAdjust daa40 (trapezoid 20 100 10 3000 3000 (1 / 2))) = 300
   \<and> DaaBlock (daa40\<lparr>minimumAcceleration := 500\<rparr>) (trapezoid 20 100 10 3000 3000 (1 / 2))
       = None
   \<and> durations daa32 ! 0 = 1 / 32
   \<and> DaaProposeDeceleration daa32 (trapezoid 0 16 16 4096 4096 1) = (True, 0, NaN)
   \<and> DaaAdjust daa32 (trapezoid 0 16 16 4096 4096 1)
       = (trapezoid 0 16 16 4096 4096 1)
           \<lparr>topSpeed := 24, acceleration := 768, deceleration := 256,
            beforePrepare_accelDistance := 3 / 8, beforePrepare_decelDistance := 5 / 8\<rparr>
   \<and> fst (snd (PlanShaping trapezoidParams daa32 (trapezoid 0 16 16 4096 4096 1)
                 \<lparr>accelDistance = 0, decelStartDistance = 0, accelClocks = 0, decelClocks = 0\<rparr>
                 True))
       = (trapezoid 0 16 16 4096 4096 1)
           \<lparr>topSpeed := 24, acceleration := 768, deceleration := 256,
            beforePrepare_accelDistance := 3 / 8, beforePrepare_decelDistance := 5 / 8\<rparr>"
  using C8_daa_minimum_acceleration [of daa40 "trapezoid 0 100 0 3000 3000 20"]
        C8_daa_minimum_acceleration [of "daa40\<lparr>minimumAcceleration := 2500\<rparr>"
          "trapezoid 0 100 0 3000 3000 20"]
        C8_daa_minimum_acceleration [of "daa40\<lparr>minimumAcceleration := 10000\<rparr>"
          "trapezoid 0 100 0 3000 3000 4"]
        C8_daa_minimum_acceleration [of "daa40\<lparr>minimumAcceleration := 500\<rparr>"
          "trapezoid 10 100 20 3000 3000 (1 / 2)"]
        C8_daa_minimum_acceleration [of "daa40\<lparr>minimumAcceleration := 500\<rparr>"
          "trapezoid 20 100 10 3000 3000 (1 / 2)"]
        C8_daa_minimum_acceleration [of daa32 "trapezoid 0 16 16 4096 4096 1" trapezoidParams
          "\<lparr>accelDistance = 0, decelStartDistance = 0, accelClocks = 0, decelClocks = 0\<rparr>"]
  by (simp add: Daa_defs PlanShaping_def SUPPORT_DAA_def daa40_eq daa32_eq)

text \<open>
  C9. A move whose top speed is not above its start speed gets no proposal for the
  acceleration; if it gets none for the deceleration either, the adjustment returns the
  move as it came, with its acceleration, deceleration and two distances, and so does
  \<^verbatim>\<open>PlanShaping\<close> for the type \<open>daa\<close>.
\<close>

theorem C9_daa_no_acceleration_adjustment:
  assumes "topSpeed dda \<le> startSpeed dda"
  shows "\<not> fst (DaaProposeAcceleration s dda)
       \<and> (\<not> fst (DaaProposeDeceleration s dda) \<longrightarrow>
            DaaAdjust s dda = dda
          \<and> acceleration (DaaAdjust s dda) = acceleration dda
          \<and> deceleration (DaaAdjust s dda) = deceleration dda
          \<and> beforePrepare_accelDistance (DaaAdjust s dda) = beforePrepare_accelDistance dda
          \<and> beforePrepare_decelDistance (DaaAdjust s dda) = beforePrepare_decelDistance dda
          \<and> (shaperType s = daa \<longrightarrow>
               fst (snd (PlanShaping SetFromDDA s dda params True)) = dda))"
proof -
  have a: "\<not> fst (DaaProposeAcceleration s dda)"
    using assms by (simp add: DaaProposeAcceleration_def Let_def)
  have blk: "DaaBlock s dda = Some dda" if "\<not> fst (DaaProposeDeceleration s dda)"
    using a that by (auto simp: DaaBlock_def split: prod.splits)
  have b: "DaaAdjust s dda = dda" if "\<not> fst (DaaProposeDeceleration s dda)"
    using blk [OF that] by (simp add: DaaAdjust_def)
  have c: "fst (snd (PlanShaping SetFromDDA s dda params True)) = dda"
    if "\<not> fst (DaaProposeDeceleration s dda)" "shaperType s = daa"
    using blk [OF that(1)] that(2) by (simp add: PlanShaping_def SUPPORT_DAA_def Let_def)
  from a b c show ?thesis by auto
qed

theorem C9_daa_no_acceleration_adjustment_witness:
  "topSpeed (trapezoid 100 100 0 3000 1000 20) \<le> startSpeed (trapezoid 100 100 0 3000 1000 20)
   \<and> DaaProposeDeceleration daa40 (trapezoid 100 100 0 3000 1000 20)
       = (False, 1000, Finite 5)
   \<and> shaperType daa40 = daa
   \<and> DaaAdjust daa40 (trapezoid 100 100 0 3000 1000 20) = trapezoid 100 100 0 3000 1000 20
   \<and> fst (snd (PlanShaping trapezoidParams daa40 (trapezoid 100 100 0 3000 1000 20)
                 \<lparr>accelDistance = 0, decelStartDistance = 0, accelClocks = 0, decelClocks = 0\<rparr>
                 True))
       = trapezoid 100 100 0 3000 1000 20"
  using C9_daa_no_acceleration_adjustment [of "trapezoid 100 100 0 3000 1000 20" daa40
          trapezoidParams
          "\<lparr>accelDistance = 0, decelStartDistance = 0, accelClocks = 0, decelClocks = 0\<rparr>"]
  by (simp add: Daa_defs PlanShaping_def SUPPORT_DAA_def daa40_eq)

end
